theory Spec2Isabelle
  imports Main "HOL-Library.Log_Nat"
begin

section \<open>Values shared by the routes of \<^verbatim>\<open>server/node/routes.js\<close>\<close>

text \<open>
  A JavaScript exception is a value. \<open>TypeError p\<close> is the error raised by reading the
  property \<open>p\<close> of \<^verbatim>\<open>undefined\<close> or \<^verbatim>\<open>null\<close>; \<open>StripeError m\<close> is a rejected
  call of the Stripe client whose \<^verbatim>\<open>err.message\<close> is \<open>m\<close>; \<open>ConversionError m\<close> is
  the \<^verbatim>\<open>TypeError\<close> with message \<open>m\<close> raised when an operand of an arithmetic operator
  cannot be converted to a number.
\<close>

datatype js_error = TypeError string | StripeError string | ConversionError string

subsection \<open>Numbers\<close>

text \<open>
  A JavaScript number is an IEEE 754 double: \<^verbatim>\<open>NaN\<close>, an infinity, the negative zero,
  or \<open>Num x\<close>, the finite double of value \<open>x\<close> (\<open>Num 0\<close> is the positive zero). The
  rational under \<open>Num\<close> is meant to be a double; every operation below yields one.

  \<open>nearest_double x\<close> is the double nearest to \<open>x\<close> before overflow is looked at: the
  significand has 53 bits, below \<open>2 ^ -1022\<close> the doubles are the multiples of
  \<open>2 ^ -1074\<close>, and a tie goes to the even significand. \<open>round_to_double\<close> adds the
  overflow to an infinity and the sign of a result that underflows to zero. It is also the
  value that \<^verbatim>\<open>JSON.parse\<close> gives to a decimal literal other than \<^verbatim>\<open>-0\<close>.
\<close>

datatype js_number = NaN | PosInfinity | NegInfinity | NegZero | Num rat

definition round_half_even :: "rat \<Rightarrow> int" where
  "round_half_even x =
     (let f = \<lfloor>x\<rfloor>; d = x - of_int f
      in if d < 1 / 2 then f else if 1 / 2 < d then f + 1
         else if even f then f else f + 1)"

definition pow2 :: "int \<Rightarrow> rat" where
  "pow2 e = (if 0 \<le> e then 2 ^ nat e else 1 / 2 ^ nat (- e))"

text \<open>\<open>binade x\<close> is the exponent \<open>e\<close> with \<open>2 ^ e \<le> \<bar>x\<bar> < 2 ^ (e + 1)\<close>, for \<open>x \<noteq> 0\<close>.\<close>

definition binade :: "rat \<Rightarrow> int" where
  "binade x =
     (case quotient_of \<bar>x\<bar> of
        (a, b) \<Rightarrow> (let k = bitlen a - bitlen b in if pow2 k \<le> \<bar>x\<bar> then k else k - 1))"

definition nearest_double :: "rat \<Rightarrow> rat" where
  "nearest_double x =
     (let u = pow2 (max (binade x) (- 1022) - 52) in of_int (round_half_even (x / u)) * u)"

definition signed_zero :: "bool \<Rightarrow> js_number" where
  "signed_zero neg = (if neg then NegZero else Num 0)"

definition signed_infinity :: "bool \<Rightarrow> js_number" where
  "signed_infinity neg = (if neg then NegInfinity else PosInfinity)"

definition round_to_double :: "rat \<Rightarrow> js_number" where
  "round_to_double x =
     (if x = 0 then Num 0
      else (let r = nearest_double x
            in if pow2 1024 \<le> \<bar>r\<bar> then signed_infinity (x < 0)
               else if r = 0 then signed_zero (x < 0)
               else Num r))"

fun finite_value :: "js_number \<Rightarrow> rat option" where
  "finite_value (Num x) = Some x"
| "finite_value NegZero = Some 0"
| "finite_value _ = None"

fun negative :: "js_number \<Rightarrow> bool" where
  "negative (Num x) = (x < 0)"
| "negative NegZero = True"
| "negative NegInfinity = True"
| "negative _ = False"

text \<open>
  The operator \<^verbatim>\<open>*\<close> on two numbers: \<^verbatim>\<open>NaN\<close> for a \<^verbatim>\<open>NaN\<close> operand and for
  zero times an infinity, otherwise the exact product rounded, with the sign of the
  operands on a zero or an infinity.
\<close>

definition js_times :: "js_number \<Rightarrow> js_number \<Rightarrow> js_number" where
  "js_times x y =
     (if x = NaN \<or> y = NaN then NaN
      else (case (finite_value x, finite_value y) of
              (Some a, Some b) \<Rightarrow>
                if a * b = 0 then signed_zero (negative x \<noteq> negative y)
                else round_to_double (a * b)
            | (Some a, None) \<Rightarrow>
                if a = 0 then NaN else signed_infinity (negative x \<noteq> negative y)
            | (None, Some b) \<Rightarrow>
                if b = 0 then NaN else signed_infinity (negative x \<noteq> negative y)
            | (None, None) \<Rightarrow> signed_infinity (negative x \<noteq> negative y)))"

text \<open>
  The operator \<^verbatim>\<open>+\<close> on two numbers: \<^verbatim>\<open>NaN\<close> for a \<^verbatim>\<open>NaN\<close> operand and for
  the sum of the two infinities, otherwise the exact sum rounded; a zero sum is negative
  only when both operands are the negative zero.
\<close>

definition js_plus :: "js_number \<Rightarrow> js_number \<Rightarrow> js_number" where
  "js_plus x y =
     (if x = NaN \<or> y = NaN then NaN
      else (case (finite_value x, finite_value y) of
              (Some a, Some b) \<Rightarrow>
                if a + b = 0 then signed_zero (x = NegZero \<and> y = NegZero)
                else round_to_double (a + b)
            | (Some a, None) \<Rightarrow> y
            | (None, Some b) \<Rightarrow> x
            | (None, None) \<Rightarrow> if x = y then x else NaN))"

subsection \<open>Values of a request body\<close>

text \<open>
  A field of a parsed JSON body that the routes compute with: absent (\<^verbatim>\<open>undefined\<close>),
  \<^verbatim>\<open>null\<close>, a boolean, a number, a string, or an array or object, kept as its text.
  The operator \<^verbatim>\<open>*\<close> converts both operands to numbers first. The conversion of a
  string (\<^verbatim>\<open>StringToNumber\<close>) and of an array or object (through its
  \<^verbatim>\<open>valueOf\<close> and \<^verbatim>\<open>toString\<close>, which throws a \<^verbatim>\<open>TypeError\<close> when neither
  gives a primitive) belong to the language and are parameters; \<open>Inl m\<close> is the thrown
  error's message.
\<close>

datatype js_value =
    Undefined
  | Null
  | Boolean bool
  | Number js_number
  | String string
  | Object string

text \<open>The value of a JSON number literal other than \<^verbatim>\<open>-0\<close>: the nearest double.\<close>

definition json_number :: "rat \<Rightarrow> js_value" where
  "json_number x = Number (round_to_double x)"

record js_runtime =
  StringToNumber :: "string \<Rightarrow> js_number"
  ObjectToNumber :: "string \<Rightarrow> string + js_number"

definition to_number :: "js_runtime \<Rightarrow> js_value \<Rightarrow> string + js_number" where
  "to_number rt v =
     (case v of
        Undefined \<Rightarrow> Inr NaN
      | Null \<Rightarrow> Inr (Num 0)
      | Boolean b \<Rightarrow> Inr (if b then Num 1 else Num 0)
      | Number n \<Rightarrow> Inr n
      | String t \<Rightarrow> Inr (StringToNumber rt t)
      | Object t \<Rightarrow> ObjectToNumber rt t)"

text \<open>\<^verbatim>\<open>v * w\<close>: the left operand is converted first.\<close>

definition js_multiply :: "js_runtime \<Rightarrow> js_value \<Rightarrow> js_value \<Rightarrow> string + js_number" where
  "js_multiply rt v w =
     (case to_number rt v of
        Inl m \<Rightarrow> Inl m
      | Inr x \<Rightarrow> (case to_number rt w of Inl m \<Rightarrow> Inl m | Inr y \<Rightarrow> Inr (js_times x y)))"

section \<open>The catalog and \<^verbatim>\<open>calculatePaymentAmount\<close>\<close>

text \<open>
  \<^verbatim>\<open>./inventory\<close> is another module: the answer of \<^verbatim>\<open>products.list()\<close> and
  the function \<^verbatim>\<open>products.getShippingCost\<close> are parameters. A product carries
  \<^verbatim>\<open>product.skus.data\<close>, a sku its \<^verbatim>\<open>id\<close> and \<^verbatim>\<open>price\<close>; the quantity of an
  item comes from the request body.
\<close>

record sku =
  sku_id :: string
  price :: js_value

record product =
  skus_data :: "sku list"

record inventory =
  products_list :: "js_error + product list"
  getShippingCost :: "string \<Rightarrow> js_error + js_number"

record item =
  parent :: string
  quantity :: js_value

text \<open>
  \<^verbatim>\<open>productList.data.reduce((a, product) => [...a, ...product.skus.data], [])\<close>:
  the skus of all products, in listing order.
\<close>

fun collect_skus :: "sku list \<Rightarrow> product list \<Rightarrow> sku list" where
  "collect_skus a [] = a"
| "collect_skus a (p # ps) = collect_skus (a @ skus_data p) ps"

text \<open>
  \<^verbatim>\<open>items.reduce((a, item) => { const sku = skus.filter(...)[0];
  return a + sku.price * item.quantity; }, 0)\<close>. Index 0 of an empty array is
  \<^verbatim>\<open>undefined\<close>, and reading its \<^verbatim>\<open>price\<close> throws, which ends the reduction; so
  does a conversion that throws. The product is a number, so \<^verbatim>\<open>+\<close> adds numbers.
\<close>

fun reduce_items :: "js_runtime \<Rightarrow> sku list \<Rightarrow> js_number \<Rightarrow> item list \<Rightarrow> js_error + js_number" where
  "reduce_items rt skus a [] = Inr a"
| "reduce_items rt skus a (i # rest) =
     (case filter (\<lambda>sku. sku_id sku = parent i) skus of
        [] \<Rightarrow> Inl (TypeError ''price'')
      | sku # _ \<Rightarrow>
          (case js_multiply rt (price sku) (quantity i) of
             Inl m \<Rightarrow> Inl (ConversionError m)
           | Inr line \<Rightarrow> reduce_items rt skus (js_plus a line) rest))"

definition calculatePaymentAmount ::
  "js_runtime \<Rightarrow> inventory \<Rightarrow> item list \<Rightarrow> js_error + js_number" where
  "calculatePaymentAmount rt cat items =
     (case products_list cat of
        Inl err \<Rightarrow> Inl err
      | Inr productList \<Rightarrow> reduce_items rt (collect_skus [] productList) (Num 0) items)"



definition numeric :: "js_runtime \<Rightarrow> js_value \<Rightarrow> bool" where
  "numeric rt v = (case to_number rt v of Inr n \<Rightarrow> True | Inl m \<Rightarrow> False)"

definition number_of :: "js_runtime \<Rightarrow> js_value \<Rightarrow> js_number" where
  "number_of rt v = (case to_number rt v of Inr n \<Rightarrow> n | Inl m \<Rightarrow> NaN)"








section \<open>Stripe objects, provider calls and the effects of a handler\<close>

text \<open>
  The objects the routes read. \<open>payment_ref\<close> is the \<^verbatim>\<open>payment_method\<close> or \<^verbatim>\<open>source\<close>
  object found on \<^verbatim>\<open>last_payment_error\<close>; \<open>stripe_object\<close> holds the fields that the
  routes read from a PaymentIntent, a Source or a Checkout Session. A field that may be
  \<^verbatim>\<open>undefined\<close> or \<^verbatim>\<open>null\<close> where the code dereferences it is an \<open>option\<close>.
\<close>

record payment_ref =
  ref_object :: string
  ref_id :: string
  ref_type :: string

record payment_error =
  payment_method :: "payment_ref option"
  source :: "payment_ref option"
  message :: string

record stripe_object =
  object :: string
  obj_id :: string
  status :: string
  metadata :: "(string \<rightharpoonup> string) option"
  last_payment_error :: "payment_error option"
  url :: string

text \<open>The arguments of the calls the routes make on the Stripe client.\<close>

record intent_metadata =
  campaign_id :: string
  product_id :: string
  metadata_quantity :: js_value

record create_params =
  amount :: js_number
  currency :: string
  description :: string
  create_metadata :: intent_metadata
  payment_method_types :: "string list"

record update_params =
  update_amount :: "js_number option"
  update_currency :: "string option"
  update_metadata :: "intent_metadata option"
  update_payment_method_types :: "string list option"

record session_params =
  price_currency :: string
  product_name :: string
  product_images :: "string list"
  product_metadata :: intent_metadata
  unit_amount :: js_number
  line_quantity :: js_value
  allowed_countries :: "string list"
  mode :: string
  success_url :: string
  cancel_url :: string

datatype call =
    Create create_params
  | Update string update_params
  | Retrieve string
  | Confirm string string
  | Cancel string
  | SessionsCreate session_params

text \<open>
  The provider is outside the program. Its answer to a call may depend on the calls this
  server made before; \<open>Inl m\<close> is a rejected promise with \<^verbatim>\<open>err.message\<close> \<open>m\<close>.
\<close>

type_synonym stripe = "call list \<Rightarrow> call \<Rightarrow> string + stripe_object"

datatype log_entry =
    Log_error string
  | Log_verification_failed
  | Log_succeeded string
  | Log_payment_failed string string string string
  | Log_chargeable string
  | Log_source_failed string

text \<open>
  What a handler leaves behind: the lines written with \<^verbatim>\<open>console.log\<close> and the calls
  made on the provider, both in order. A handler ends by sending a response or by
  throwing (its promise rejects and the handler itself has sent nothing).
\<close>

record effects =
  logged :: "log_entry list"
  calls :: "call list"

datatype response_body =
    Json_paymentIntent stripe_object
  | Json_error string
  | Json_url string
  | Json_status string "string option"
  | Status_text

datatype outcome = Responded nat response_body | Threw js_error

definition console_log :: "log_entry \<Rightarrow> effects \<Rightarrow> effects" where
  "console_log l s = s\<lparr>logged := logged s @ [l]\<rparr>"

definition called :: "call \<Rightarrow> effects \<Rightarrow> effects" where
  "called c s = s\<lparr>calls := calls s @ [c]\<rparr>"

text \<open>
  Of \<^verbatim>\<open>./config\<close>, another module, the routes below read
  \<^verbatim>\<open>config.stripe.webhookSecret\<close> (possibly \<^verbatim>\<open>undefined\<close>) and
  \<^verbatim>\<open>config.paymentMethods\<close>.
\<close>

record config =
  webhookSecret :: "string option"
  paymentMethods :: "string list"

section \<open>The routes that create and update a PaymentIntent\<close>

record request_body =
  body_currency :: string
  body_price :: js_value
  body_quantity :: js_value
  productName :: string
  campaignId :: string
  productId :: string
  imageUrl :: string
  productIndex :: string
  body_items :: "item list"
  shippingOption_id :: string
  payment_methods :: "string list"

definition request_metadata :: "request_body \<Rightarrow> intent_metadata" where
  "request_metadata b =
     \<lparr>campaign_id = campaignId b, product_id = productId b,
      metadata_quantity = body_quantity b\<rparr>"

text \<open>
  \<^verbatim>\<open>app.post('/payment_intents')\<close>. The amount \<^verbatim>\<open>price * quantity * 100\<close> is
  computed inside the \<^verbatim>\<open>try\<close>, before the call: a conversion that throws is caught
  like a rejected call.
\<close>

definition post_payment_intents ::
  "config \<Rightarrow> js_runtime \<Rightarrow> stripe \<Rightarrow> request_body \<Rightarrow> effects \<Rightarrow> outcome \<times> effects" where
  "post_payment_intents cfg rt api b s =
     (let initPaymentMethods =
            filter (\<lambda>paymentMethod. paymentMethod \<noteq> ''au_becs_debit'') (paymentMethods cfg)
      in case js_multiply rt (body_price b) (body_quantity b) of
           Inl m \<Rightarrow> (Responded 500 (Json_error m), console_log (Log_error m) s)
         | Inr line \<Rightarrow>
             (let c = Create \<lparr>amount = js_times line (Num 100),
                             currency = body_currency b,
                             description = productName b,
                             create_metadata = request_metadata b,
                             payment_method_types = initPaymentMethods\<rparr>
              in case api (calls s) c of
                   Inr paymentIntent \<Rightarrow>
                     (Responded 200 (Json_paymentIntent paymentIntent), called c s)
                 | Inl m \<Rightarrow>
                     (Responded 500 (Json_error m), console_log (Log_error m) (called c s))))"

text \<open>\<^verbatim>\<open>app.post('/payment_intents/:id/update_quantity')\<close>\<close>

definition post_update_quantity ::
  "js_runtime \<Rightarrow> stripe \<Rightarrow> string \<Rightarrow> request_body \<Rightarrow> effects \<Rightarrow> outcome \<times> effects" where
  "post_update_quantity rt api params_id b s =
     (case js_multiply rt (body_price b) (body_quantity b) of
        Inl m \<Rightarrow> (Responded 500 (Json_error m), console_log (Log_error m) s)
      | Inr line \<Rightarrow>
          (let c = Update params_id
                     \<lparr>update_amount = Some (js_times line (Num 100)),
                      update_currency = None,
                      update_metadata = Some (request_metadata b),
                      update_payment_method_types = None\<rparr>
           in case api (calls s) c of
                Inr paymentIntent \<Rightarrow>
                  (Responded 200 (Json_paymentIntent paymentIntent), called c s)
              | Inl m \<Rightarrow>
                  (Responded 500 (Json_error m), console_log (Log_error m) (called c s))))"

text \<open>\<^verbatim>\<open>app.post('/create-checkout-session')\<close>: the call is not inside a \<^verbatim>\<open>try\<close>.\<close>

definition YOUR_DOMAIN :: string where
  "YOUR_DOMAIN = ''https://brands.tempoplatform.com''"

definition post_create_checkout_session ::
  "js_runtime \<Rightarrow> stripe \<Rightarrow> request_body \<Rightarrow> effects \<Rightarrow> outcome \<times> effects" where
  "post_create_checkout_session rt api b s =
     (case js_multiply rt (body_price b) (Number (Num 100)) of
        Inl m \<Rightarrow> (Threw (ConversionError m), s)
      | Inr cents \<Rightarrow>
          (let c = SessionsCreate
                     \<lparr>price_currency = body_currency b,
                      product_name = productName b,
                      product_images = [imageUrl b],
                      product_metadata = request_metadata b,
                      unit_amount = cents,
                      line_quantity = body_quantity b,
                      allowed_countries = [''US''],
                      mode = ''payment'',
                      success_url = YOUR_DOMAIN @ ''/thank-you'',
                      cancel_url = YOUR_DOMAIN @ ''/campaign/'' @ campaignId b
                                     @ ''/product/'' @ productIndex b\<rparr>
           in case api (calls s) c of
                Inr session \<Rightarrow> (Responded 200 (Json_url (url session)), called c s)
              | Inl m \<Rightarrow> (Threw (StripeError m), called c s)))"

text \<open>
  \<^verbatim>\<open>app.post('/payment_intents/:id/shipping_change')\<close>: the amount is computed before
  the \<^verbatim>\<open>try\<close>, so a failure there is thrown.
\<close>

definition post_shipping_change ::
  "js_runtime \<Rightarrow> inventory \<Rightarrow> stripe \<Rightarrow> string \<Rightarrow> request_body \<Rightarrow> effects \<Rightarrow>
   outcome \<times> effects" where
  "post_shipping_change rt cat api params_id b s =
     (case calculatePaymentAmount rt cat (body_items b) of
        Inl err \<Rightarrow> (Threw err, s)
      | Inr amount0 \<Rightarrow>
          (case getShippingCost cat (shippingOption_id b) of
             Inl err \<Rightarrow> (Threw err, s)
           | Inr cost \<Rightarrow>
               (let c = Update params_id
                          \<lparr>update_amount = Some (js_plus amount0 cost),
                           update_currency = None,
                           update_metadata = None,
                           update_payment_method_types = None\<rparr>
                in case api (calls s) c of
                     Inr paymentIntent \<Rightarrow>
                       (Responded 200 (Json_paymentIntent paymentIntent), called c s)
                   | Inl m \<Rightarrow> (Responded 500 (Json_error m), called c s))))"

text \<open>\<^verbatim>\<open>app.post('/payment_intents/:id/update_currency')\<close>\<close>

definition post_update_currency ::
  "stripe \<Rightarrow> string \<Rightarrow> request_body \<Rightarrow> effects \<Rightarrow> outcome \<times> effects" where
  "post_update_currency api params_id b s =
     (let c = Update params_id
                \<lparr>update_amount = None,
                 update_currency = Some (body_currency b),
                 update_metadata = None,
                 update_payment_method_types = Some (payment_methods b)\<rparr>
      in case api (calls s) c of
           Inr paymentIntent \<Rightarrow> (Responded 200 (Json_paymentIntent paymentIntent), called c s)
         | Inl m \<Rightarrow> (Responded 500 (Json_error m), called c s))"

text \<open>\<^verbatim>\<open>app.get('/payment_intents/:id/status')\<close>: no \<^verbatim>\<open>try\<close> around the call.\<close>

definition get_status :: "stripe \<Rightarrow> string \<Rightarrow> effects \<Rightarrow> outcome \<times> effects" where
  "get_status api params_id s =
     (let c = Retrieve params_id
      in case api (calls s) c of
           Inl m \<Rightarrow> (Threw (StripeError m), called c s)
         | Inr paymentIntent \<Rightarrow>
             (Responded 200
                (Json_status (status paymentIntent)
                   (case last_payment_error paymentIntent of
                      None \<Rightarrow> None
                    | Some e \<Rightarrow> Some (message e))),
              called c s))"

section \<open>The webhook handler\<close>

text \<open>
  A delivery carries the raw body, the \<^verbatim>\<open>stripe-signature\<close> header (possibly absent)
  and the parsed body. \<^verbatim>\<open>stripe.webhooks.constructEvent\<close> belongs to the Stripe
  library and is a parameter: it yields the event or throws. An event is taken to have
  its \<^verbatim>\<open>type\<close> and its \<^verbatim>\<open>data.object\<close>.
\<close>

record event =
  event_type :: string
  data_object :: stripe_object

record webhook_request =
  rawBody :: string
  stripe_signature :: "string option"
  body :: event

type_synonym construct_event = "string \<Rightarrow> string option \<Rightarrow> string \<Rightarrow> js_error + event"

text \<open>
  Lines 164 to 186: the event the handler goes on with, or \<open>None\<close> when the signature
  check threw. A secret that is \<^verbatim>\<open>undefined\<close> or the empty string is falsy.
\<close>

definition received_event :: "config \<Rightarrow> construct_event \<Rightarrow> webhook_request \<Rightarrow> event option" where
  "received_event cfg constructEvent req =
     (case webhookSecret cfg of
        None \<Rightarrow> Some (body req)
      | Some secret \<Rightarrow>
          if secret = [] then Some (body req)
          else (case constructEvent (rawBody req) (stripe_signature req) secret of
                  Inl err \<Rightarrow> None
                | Inr event \<Rightarrow> Some event))"

text \<open>
  Lines 190 to 207. Reading \<^verbatim>\<open>payment_method\<close> of an absent \<^verbatim>\<open>last_payment_error\<close>
  throws, and so does reading \<^verbatim>\<open>object\<close> when neither \<^verbatim>\<open>payment_method\<close> nor
  \<^verbatim>\<open>source\<close> is there.
\<close>

definition monitor_payment_intent :: "string \<Rightarrow> stripe_object \<Rightarrow> js_error + log_entry list" where
  "monitor_payment_intent eventType obj =
     (if object obj = ''payment_intent'' then
        if eventType = ''payment_intent.succeeded'' then Inr [Log_succeeded (obj_id obj)]
        else if eventType = ''payment_intent.payment_failed'' then
          (case last_payment_error obj of
             None \<Rightarrow> Inl (TypeError ''payment_method'')
           | Some e \<Rightarrow>
               (case (case payment_method e of Some pm \<Rightarrow> Some pm | None \<Rightarrow> source e) of
                  None \<Rightarrow> Inl (TypeError ''object'')
                | Some paymentSourceOrMethod \<Rightarrow>
                    Inr [Log_payment_failed (ref_object paymentSourceOrMethod)
                           (ref_id paymentSourceOrMethod) (ref_type paymentSourceOrMethod)
                           (obj_id obj)]))
        else Inr []
      else Inr [])"

text \<open>
  Lines 210 to 227. The result is \<open>Some\<close> outcome when the handler ends here (the 403 or
  an exception) and \<open>None\<close> when it goes on. \<^verbatim>\<open>object.metadata.paymentIntent\<close> is read
  only after the two comparisons before it held; an absent or empty value is falsy.
\<close>

definition monitor_chargeable :: "stripe \<Rightarrow> stripe_object \<Rightarrow> effects \<Rightarrow> outcome option \<times> effects" where
  "monitor_chargeable api obj s =
     (if object obj = ''source'' \<and> status obj = ''chargeable'' then
        (case metadata obj of
           None \<Rightarrow> (Some (Threw (TypeError ''paymentIntent'')), s)
         | Some md \<Rightarrow>
             (case md ''paymentIntent'' of
                None \<Rightarrow> (None, s)
              | Some pid \<Rightarrow>
                  if pid = [] then (None, s)
                  else
                    (let s1 = console_log (Log_chargeable (obj_id obj)) s;
                         s2 = called (Retrieve pid) s1
                     in case api (calls s1) (Retrieve pid) of
                          Inl m \<Rightarrow> (Some (Threw (StripeError m)), s2)
                        | Inr paymentIntent \<Rightarrow>
                            if status paymentIntent \<noteq> ''requires_payment_method''
                            then (Some (Responded 403 Status_text), s2)
                            else
                              (let c = Confirm (obj_id paymentIntent) (obj_id obj);
                                   s3 = called c s2
                               in case api (calls s2) c of
                                    Inl m \<Rightarrow> (Some (Threw (StripeError m)), s3)
                                  | Inr _ \<Rightarrow> (None, s3)))))
      else (None, s))"

text \<open>Lines 230 to 239.\<close>

definition monitor_failed :: "stripe \<Rightarrow> stripe_object \<Rightarrow> effects \<Rightarrow> outcome option \<times> effects" where
  "monitor_failed api obj s =
     (if object obj = ''source'' \<and> status obj \<in> set [''failed'', ''canceled''] then
        (case metadata obj of
           None \<Rightarrow> (Some (Threw (TypeError ''paymentIntent'')), s)
         | Some md \<Rightarrow>
             (case md ''paymentIntent'' of
                None \<Rightarrow> (None, s)
              | Some pid \<Rightarrow>
                  if pid = [] then (None, s)
                  else
                    (let s1 = console_log (Log_source_failed (obj_id obj)) s;
                         s2 = called (Cancel pid) s1
                     in case api (calls s1) (Cancel pid) of
                          Inl m \<Rightarrow> (Some (Threw (StripeError m)), s2)
                        | Inr _ \<Rightarrow> (None, s2))))
      else (None, s))"

text \<open>Lines 187 to 242: what the handler does with the event it goes on with.\<close>

definition dispatch :: "stripe \<Rightarrow> event \<Rightarrow> effects \<Rightarrow> outcome \<times> effects" where
  "dispatch api ev s =
     (let obj = data_object ev
      in case monitor_payment_intent (event_type ev) obj of
           Inl err \<Rightarrow> (Threw err, s)
         | Inr ls \<Rightarrow>
             (let s1 = s\<lparr>logged := logged s @ ls\<rparr>
              in case monitor_chargeable api obj s1 of
                   (Some out, s2) \<Rightarrow> (out, s2)
                 | (None, s2) \<Rightarrow>
                     (case monitor_failed api obj s2 of
                        (Some out, s3) \<Rightarrow> (out, s3)
                      | (None, s3) \<Rightarrow> (Responded 200 Status_text, s3))))"

text \<open>\<^verbatim>\<open>app.post('/webhook')\<close>\<close>

definition webhook ::
  "config \<Rightarrow> construct_event \<Rightarrow> stripe \<Rightarrow> webhook_request \<Rightarrow> effects \<Rightarrow> outcome \<times> effects" where
  "webhook cfg constructEvent api req s =
     (case received_event cfg constructEvent req of
        None \<Rightarrow> (Responded 400 Status_text, console_log Log_verification_failed s)
      | Some ev \<Rightarrow> dispatch api ev s)"

section \<open>Observing a handler\<close>

text \<open>
  The calls a handler made, given the effects before and after it; which calls change
  the provider's state; and the parameters of the \<^verbatim>\<open>paymentIntents.create\<close> calls
  among a list of calls.
\<close>

definition new_calls :: "effects \<Rightarrow> effects \<Rightarrow> call list" where
  "new_calls s s' = drop (length (calls s)) (calls s')"

fun mutating :: "call \<Rightarrow> bool" where
  "mutating (Retrieve _) = False"
| "mutating _ = True"

fun is_confirm :: "call \<Rightarrow> bool" where
  "is_confirm (Confirm _ _) = True"
| "is_confirm _ = False"

fun is_cancel :: "call \<Rightarrow> bool" where
  "is_cancel (Cancel _) = True"
| "is_cancel _ = False"

fun created :: "call list \<Rightarrow> create_params list" where
  "created [] = []"
| "created (Create p # cs) = p # created cs"
| "created (_ # cs) = created cs"

section \<open>Sample data\<close>

text \<open>
  A provider that answers every call: an intent awaits a payment method until this
  server has confirmed it, and has succeeded afterwards. A provider whose every call
  is rejected. A signature check that accepts the header \<^verbatim>\<open>good\<close> only.
\<close>

definition demo_intent :: "string \<Rightarrow> string \<Rightarrow> stripe_object" where
  "demo_intent i st =
     \<lparr>object = ''payment_intent'', obj_id = i, status = st, metadata = Some Map.empty,
      last_payment_error = None, url = []\<rparr>"

fun confirms :: "string \<Rightarrow> call \<Rightarrow> bool" where
  "confirms i (Confirm j _) = (i = j)"
| "confirms i _ = False"

definition demo_stripe :: stripe where
  "demo_stripe history c =
     (case c of
        Create p \<Rightarrow> Inr (demo_intent ''pi_1'' ''requires_payment_method'')
      | Update i p \<Rightarrow> Inr (demo_intent i ''requires_payment_method'')
      | Retrieve i \<Rightarrow>
          Inr (demo_intent i (if list_ex (confirms i) history then ''succeeded''
                              else ''requires_payment_method''))
      | Confirm i src \<Rightarrow> Inr (demo_intent i ''succeeded'')
      | Cancel i \<Rightarrow> Inr (demo_intent i ''canceled'')
      | SessionsCreate p \<Rightarrow>
          Inr \<lparr>object = ''checkout.session'', obj_id = ''cs_1'', status = ''open'',
               metadata = Some Map.empty, last_payment_error = None,
               url = ''https://checkout.stripe.com/pay/cs_1''\<rparr>)"

definition failing_stripe :: "string \<Rightarrow> stripe" where
  "failing_stripe m history c = Inl m"

definition demo_source :: "string \<Rightarrow> stripe_object" where
  "demo_source st =
     \<lparr>object = ''source'', obj_id = ''src_1'', status = st,
      metadata = Some [''paymentIntent'' \<mapsto> ''pi_1''],
      last_payment_error = None, url = []\<rparr>"

definition demo_event :: "string \<Rightarrow> stripe_object \<Rightarrow> event" where
  "demo_event t obj = \<lparr>event_type = t, data_object = obj\<rparr>"

definition demo_constructEvent :: "event \<Rightarrow> construct_event" where
  "demo_constructEvent ev raw signature secret =
     (if signature = Some ''good'' \<and> secret = ''whsec_1'' then Inr ev
      else Inl (StripeError ''No signatures found matching the expected signature''))"

definition delivery :: "string option \<Rightarrow> event \<Rightarrow> webhook_request" where
  "delivery signature ev = \<lparr>rawBody = ''{}'', stripe_signature = signature, body = ev\<rparr>"

definition unsigned_config :: config where
  "unsigned_config =
     \<lparr>webhookSecret = None, paymentMethods = [''card'', ''au_becs_debit'', ''ideal'']\<rparr>"

definition signed_config :: config where
  "signed_config =
     \<lparr>webhookSecret = Some ''whsec_1'',
      paymentMethods = [''card'', ''au_becs_debit'', ''ideal'']\<rparr>"

definition fresh :: effects where
  "fresh = \<lparr>logged = [], calls = []\<rparr>"

definition chargeable_event :: event where
  "chargeable_event = demo_event ''source.chargeable'' (demo_source ''chargeable'')"

definition failed_event :: event where
  "failed_event = demo_event ''source.failed'' (demo_source ''failed'')"

definition succeeded_event :: event where
  "succeeded_event =
     demo_event ''payment_intent.succeeded'' (demo_intent ''pi_1'' ''succeeded'')"

definition payment_failed_event :: event where
  "payment_failed_event =
     demo_event ''payment_intent.payment_failed''
       (demo_intent ''pi_1'' ''requires_payment_method'')"

text \<open>The effects left behind by a first delivery of \<open>chargeable_event\<close>.\<close>

definition first_delivery :: effects where
  "first_delivery =
     \<lparr>logged = [Log_chargeable ''src_1''],
      calls = [Retrieve ''pi_1'', Confirm ''pi_1'' ''src_1'']\<rparr>"

text \<open>
  A runtime: the strings \<^verbatim>\<open>10\<close> and \<^verbatim>\<open>2\<close> are numerals, every other string is
  not a number, the empty array is zero, and the object that hides \<^verbatim>\<open>toString\<close>
  behind a property of its own cannot be converted.
\<close>

definition demo_runtime :: js_runtime where
  "demo_runtime =
     \<lparr>StringToNumber = (\<lambda>t. if t = ''10'' then Num 10 else if t = ''2'' then Num 2 else NaN),
      ObjectToNumber = (\<lambda>t. if t = ''[]'' then Inr (Num 0)
                             else if t = ''{toString: 1}''
                             then Inl ''Cannot convert object to primitive value''
                             else Inr NaN)\<rparr>"

definition demo_body :: request_body where
  "demo_body =
     \<lparr>body_currency = ''usd'', body_price = Number (Num 10), body_quantity = Number (Num 2),
      productName = ''Shirt'', campaignId = ''c1'', productId = ''p1'',
      imageUrl = ''https://example.com/shirt.png'', productIndex = ''0'',
      body_items = [], shippingOption_id = ''free'', payment_methods = [''card'']\<rparr>"

text \<open>A request for one item at the price 19.99, as the JSON parser reads it.\<close>

definition fractional_body :: request_body where
  "fractional_body =
     demo_body\<lparr>body_price := json_number (1999 / 100), body_quantity := json_number 1\<rparr>"

text \<open>A request whose price is an object that cannot be converted.\<close>

definition object_body :: request_body where
  "object_body = demo_body\<lparr>body_price := Object ''{toString: 1}''\<rparr>"

definition demo_products :: "product list" where
  "demo_products =
     [\<lparr>skus_data = [\<lparr>sku_id = ''sku_shirt'', price = Number (Num 500)\<rparr>]\<rparr>,
      \<lparr>skus_data = [\<lparr>sku_id = ''sku_pins'', price = Number (Num 1200)\<rparr>,
                    \<lparr>sku_id = ''sku_shirt'', price = Number (Num 999)\<rparr>]\<rparr>]"

definition demo_catalog :: inventory where
  "demo_catalog =
     \<lparr>products_list = Inr demo_products,
      getShippingCost = (\<lambda>i. if i = ''free'' then Inr (Num 0)
                              else if i = ''express'' then Inr (Num 500)
                              else Inl (TypeError ''amount''))\<rparr>"

definition resolvable_basket :: "item list" where
  "resolvable_basket =
     [\<lparr>parent = ''sku_shirt'', quantity = Number (Num 2)\<rparr>,
      \<lparr>parent = ''sku_pins'', quantity = Number (Num 1)\<rparr>]"

definition unresolvable_basket :: "item list" where
  "unresolvable_basket =
     [\<lparr>parent = ''sku_shirt'', quantity = Number (Num 2)\<rparr>,
      \<lparr>parent = ''sku_gone'', quantity = Number (Num 1)\<rparr>]"

text \<open>A basket beyond the exact range: 9007199254740991 (\<open>2 ^ 53 - 1\<close>) sets of pins.\<close>

definition huge_basket :: "item list" where
  "huge_basket = [\<lparr>parent = ''sku_pins'', quantity = Number (Num 9007199254740991)\<rparr>]"

lemmas demo_defs = demo_intent_def demo_stripe_def failing_stripe_def demo_source_def
  demo_event_def demo_constructEvent_def delivery_def unsigned_config_def signed_config_def
  fresh_def

lemmas event_defs = chargeable_event_def failed_event_def succeeded_event_def
  payment_failed_event_def first_delivery_def demo_body_def

lemmas catalog_defs = demo_products_def demo_catalog_def resolvable_basket_def
  unresolvable_basket_def huge_basket_def

lemmas webhook_defs = webhook_def received_event_def dispatch_def monitor_payment_intent_def
  monitor_chargeable_def monitor_failed_def console_log_def called_def new_calls_def Let_def

section \<open>Properties of the numbers\<close>

lemma round_half_even_of_int: "round_half_even (of_int m) = m"
  by (simp add: round_half_even_def)

lemma pow2_pos: "0 < pow2 e"
  by (simp add: pow2_def)

lemma pow2_powi: "pow2 e = 2 powi e"
  by (simp add: pow2_def power_int_def inverse_eq_divide power_one_over)

lemma pow2_add: "pow2 (i + j) = pow2 i * pow2 j"
  by (simp add: pow2_powi power_int_add)

lemma pow2_diff: "pow2 (i - j) = pow2 i / pow2 j"
  by (simp add: pow2_powi power_int_diff)

lemma pow2_nat: "0 \<le> i \<Longrightarrow> pow2 i = 2 ^ nat i"
  by (simp add: pow2_def)

text \<open>
  The rounding is the one of IEEE 754: \<open>binade\<close> is the exponent of its argument, the
  result lies within half a unit in the last place of the argument, its significand
  has 53 bits, and a tie goes to the even significand.
\<close>

lemma binade_bounds:
  assumes "x \<noteq> 0"
  shows "pow2 (binade x) \<le> \<bar>x\<bar> \<and> \<bar>x\<bar> < pow2 (binade x + 1)"
proof -
  obtain a b where q: "quotient_of \<bar>x\<bar> = (a, b)"
    by (cases "quotient_of \<bar>x\<bar>")
  then have b: "0 < b"
    by (rule quotient_of_denom_pos)
  have x: "\<bar>x\<bar> = of_int a / of_int b"
    using q by (rule quotient_of_div)
  have "0 < \<bar>x\<bar>" using assms by simp
  with x b have a: "0 < a"
    by (simp add: zero_less_divide_iff)
  let ?k = "bitlen a - bitlen b"
  have la: "0 \<le> bitlen a - 1" and lb: "0 \<le> bitlen b - 1"
    using a b by (simp_all add: bitlen_alt_def)
  have ba: "rat_of_int (2 ^ nat (bitlen a - 1)) \<le> of_int a" "rat_of_int a < of_int (2 ^ nat (bitlen a))"
    using bitlen_bounds [OF a] by (simp_all only: of_int_le_iff of_int_less_iff)
  have bb: "rat_of_int (2 ^ nat (bitlen b - 1)) \<le> of_int b" "rat_of_int b < of_int (2 ^ nat (bitlen b))"
    using bitlen_bounds [OF b] by (simp_all only: of_int_le_iff of_int_less_iff)
  have pa: "pow2 (bitlen a - 1) \<le> of_int a" "rat_of_int a < pow2 (bitlen a)"
    using ba la by (simp_all add: pow2_nat)
  have pb: "pow2 (bitlen b - 1) \<le> of_int b" "rat_of_int b < pow2 (bitlen b)"
    using bb lb by (simp_all add: pow2_nat)
  have bpos: "0 < rat_of_int b" using b by simp
  have up: "\<bar>x\<bar> < pow2 (?k + 1)"
  proof -
    have "rat_of_int a < pow2 (bitlen a)" by (fact pa(2))
    also have "\<dots> = pow2 (?k + 1) * pow2 (bitlen b - 1)"
      by (simp flip: pow2_add)
    also have "\<dots> \<le> pow2 (?k + 1) * of_int b"
      using pb(1) pow2_pos [of "?k + 1"] by (simp add: mult_left_mono)
    finally show ?thesis
      using bpos by (simp add: x pos_divide_less_eq)
  qed
  have low: "pow2 (?k - 1) < \<bar>x\<bar>"
  proof -
    have "pow2 (?k - 1) * of_int b < pow2 (?k - 1) * pow2 (bitlen b)"
      using pb(2) pow2_pos [of "?k - 1"] by (simp add: mult_strict_left_mono)
    also have "\<dots> = pow2 (bitlen a - 1)"
      by (simp flip: pow2_add)
    also have "\<dots> \<le> of_int a" by (fact pa(1))
    finally show ?thesis
      using bpos by (simp add: x pos_less_divide_eq)
  qed
  show ?thesis
  proof (cases "pow2 ?k \<le> \<bar>x\<bar>")
    case True
    then have "binade x = ?k"
      by (simp add: binade_def q Let_def)
    with True up show ?thesis by simp
  next
    case False
    then have "binade x = ?k - 1"
      by (simp add: binade_def q Let_def)
    with False low show ?thesis by simp
  qed
qed

lemma round_half_even_near: "\<bar>of_int (round_half_even y) - y\<bar> \<le> 1 / 2"
proof -
  have "of_int \<lfloor>y\<rfloor> \<le> y" "y < of_int \<lfloor>y\<rfloor> + 1"
    by linarith+
  then show ?thesis
    by (auto simp add: round_half_even_def Let_def)
qed

lemma nearest_double_near:
  "\<bar>nearest_double x - x\<bar> \<le> pow2 (max (binade x) (- 1022) - 52) / 2"
proof -
  let ?u = "pow2 (max (binade x) (- 1022) - 52)"
  have u: "0 < ?u" by (rule pow2_pos)
  have "nearest_double x - x = (of_int (round_half_even (x / ?u)) - x / ?u) * ?u"
    using u by (simp add: nearest_double_def Let_def field_simps)
  then have "\<bar>nearest_double x - x\<bar> = \<bar>of_int (round_half_even (x / ?u)) - x / ?u\<bar> * ?u"
    using u by (simp add: abs_mult)
  also have "\<dots> \<le> 1 / 2 * ?u"
    using round_half_even_near [of "x / ?u"] u by (simp only: mult_right_mono less_imp_le)
  finally show ?thesis by simp
qed

lemma round_half_even_tie:
  "y - of_int \<lfloor>y\<rfloor> = 1 / 2 \<Longrightarrow> even (round_half_even y)"
  by (simp add: round_half_even_def Let_def)

lemma round_between:
  fixes y :: rat
  assumes "\<bar>of_int r - y\<bar> \<le> 1 / 2"
    and "of_int L \<le> \<bar>y\<bar>"
    and "\<bar>y\<bar> < of_int H"
  shows "L \<le> \<bar>r\<bar> \<and> \<bar>r\<bar> \<le> H"
proof -
  from assms(1,2) have "rat_of_int L - 1 / 2 \<le> \<bar>rat_of_int r\<bar>"
    by linarith
  then have "rat_of_int (L - 1) < rat_of_int \<bar>r\<bar>"
    by simp
  then have lo: "L - 1 < \<bar>r\<bar>"
    by (simp only: of_int_less_iff)
  from assms(1,3) have "\<bar>rat_of_int r\<bar> < rat_of_int H + 1 / 2"
    by linarith
  then have "rat_of_int \<bar>r\<bar> < rat_of_int (H + 1)"
    by simp
  then have "\<bar>r\<bar> < H + 1"
    by (simp only: of_int_less_iff)
  with lo show ?thesis by simp
qed

lemma pow2_mono: "i \<le> j \<Longrightarrow> pow2 i \<le> pow2 j"
  by (simp add: pow2_powi power_int_increasing)

lemma nearest_double_significand:
  assumes "x \<noteq> 0"
  shows "\<exists>m. nearest_double x = of_int m * pow2 (max (binade x) (- 1022) - 52) \<and>
             \<bar>m\<bar> \<le> 2 ^ 53 \<and> (- 1022 \<le> binade x \<longrightarrow> 2 ^ 52 \<le> \<bar>m\<bar>)"
proof -
  let ?e = "max (binade x) (- 1022)"
  let ?u = "pow2 (?e - 52)"
  let ?y = "x / ?u"
  let ?m = "round_half_even ?y"
  have u: "0 < ?u" by (rule pow2_pos)
  have e: "pow2 (i + 52) = pow2 52 * pow2 i" "pow2 (i + 53) = pow2 53 * pow2 i" for i
    by (simp_all only: pow2_add mult.commute)
  have "pow2 ?e = pow2 (?e - 52 + 52)"
    by (rule arg_cong [where f = pow2]) linarith
  moreover have "pow2 (?e + 1) = pow2 (?e - 52 + 53)"
    by (rule arg_cong [where f = pow2]) linarith
  ultimately have eu: "pow2 ?e = pow2 52 * ?u" "pow2 (?e + 1) = pow2 53 * ?u"
    by (simp_all only: e)
  have ay: "\<bar>?y\<bar> = \<bar>x\<bar> / ?u"
    using u by (simp add: abs_divide)
  have n: "\<bar>rat_of_int ?m - ?y\<bar> \<le> 1 / 2"
    by (rule round_half_even_near)
  have "\<bar>x\<bar> < pow2 (binade x + 1)"
    using binade_bounds [OF assms] by simp
  also have "\<dots> \<le> pow2 (?e + 1)"
    by (rule pow2_mono) simp
  finally have "\<bar>x\<bar> < pow2 53 * ?u"
    by (simp only: eu)
  then have "\<bar>x\<bar> / ?u < pow2 53"
    using u by (simp only: pos_divide_less_eq)
  then have hi: "\<bar>?y\<bar> < rat_of_int (2 ^ 53)"
    by (simp add: ay pow2_def)
  have "rat_of_int 0 \<le> \<bar>?y\<bar>" by simp
  with n have "0 \<le> \<bar>?m\<bar> \<and> \<bar>?m\<bar> \<le> 2 ^ 53"
    using hi by (rule round_between)
  then have up: "\<bar>?m\<bar> \<le> 2 ^ 53" by simp
  have lo: "2 ^ 52 \<le> \<bar>?m\<bar>" if "- 1022 \<le> binade x"
  proof -
    from that have "?e = binade x" by simp
    then have "pow2 52 * ?u \<le> \<bar>x\<bar>"
      using binade_bounds [OF assms] eu(1) by simp
    then have "pow2 52 \<le> \<bar>x\<bar> / ?u"
      using u by (simp only: pos_le_divide_eq)
    then have "rat_of_int (2 ^ 52) \<le> \<bar>?y\<bar>"
      by (simp add: ay pow2_def)
    with n have "2 ^ 52 \<le> \<bar>?m\<bar> \<and> \<bar>?m\<bar> \<le> 2 ^ 53"
      using hi by (rule round_between)
    then show ?thesis by simp
  qed
  have "nearest_double x = of_int ?m * ?u"
    by (simp add: nearest_double_def Let_def)
  with up lo show ?thesis by blast
qed

lemma binade_of_int:
  assumes "n \<noteq> 0"
  shows "binade (of_int n) = bitlen \<bar>n\<bar> - 1"
proof -
  let ?a = "\<bar>n\<bar>"
  have a: "0 < ?a" using assms by simp
  have q: "quotient_of \<bar>rat_of_int n\<bar> = (?a, 1)"
    by (simp flip: of_int_abs)
  have b1: "bitlen 1 = 1"
    by (simp add: bitlen_def floorlog_def)
  have nn: "0 \<le> bitlen ?a - 1"
    using a by (simp add: bitlen_alt_def)
  have "2 ^ nat (bitlen ?a - 1) \<le> ?a"
    using bitlen_bounds [OF a] by simp
  then have "rat_of_int (2 ^ nat (bitlen ?a - 1)) \<le> rat_of_int ?a"
    by (simp only: of_int_le_iff)
  then have "pow2 (bitlen ?a - 1) \<le> \<bar>rat_of_int n\<bar>"
    using nn by (simp add: pow2_def)
  then show ?thesis
    by (simp add: binade_def q b1 Let_def)
qed

text \<open>A number on the grid of its own binade is a double.\<close>

lemma nearest_double_grid:
  assumes "x / pow2 (max (binade x) (- 1022) - 52) = of_int m"
  shows "nearest_double x = x"
proof -
  let ?u = "pow2 (max (binade x) (- 1022) - 52)"
  have "?u \<noteq> 0"
    using pow2_pos [of "max (binade x) (- 1022) - 52"] by simp
  then have "of_int m * ?u = x"
    using assms by (simp add: field_simps)
  with assms show ?thesis
    by (simp add: nearest_double_def Let_def round_half_even_of_int)
qed

text \<open>Every integer up to \<open>2 ^ 53\<close> in magnitude is a double.\<close>

lemma nearest_double_of_int:
  assumes "\<bar>n\<bar> \<le> 2 ^ 53"
  shows "nearest_double (of_int n) = of_int n"
proof (cases "n = 0")
  case True
  then show ?thesis by (simp add: nearest_double_def round_half_even_def)
next
  case False
  let ?a = "\<bar>n\<bar>"
  let ?k = "bitlen ?a - 1"
  have a: "0 < ?a" using False by simp
  have bin: "binade (of_int n) = ?k"
    using False by (rule binade_of_int)
  have nn: "0 \<le> ?k"
    using a by (simp add: bitlen_alt_def)
  then have mx: "max (binade (rat_of_int n)) (- 1022) = ?k"
    by (simp add: bin)
  have lo: "2 ^ nat ?k \<le> ?a"
    using bitlen_bounds [OF a] by simp
  with assms have p: "(2::int) ^ nat ?k \<le> 2 ^ 53" by linarith
  have k53: "nat ?k \<le> 53"
  proof (rule power_le_imp_le_exp [of "2::int"])
    show "(1::int) < 2" by simp
    show "(2::int) ^ nat ?k \<le> 2 ^ 53" by (fact p)
  qed
  show ?thesis
  proof (cases "?k \<le> 52")
    case True
    then have "pow2 (?k - 52) = 1 / 2 ^ nat (52 - ?k)"
      by (cases "?k = 52") (simp_all add: pow2_def)
    then have "rat_of_int n / pow2 (max (binade (of_int n)) (- 1022) - 52) =
        of_int (n * 2 ^ nat (52 - ?k))"
      by (simp add: mx)
    then show ?thesis by (rule nearest_double_grid)
  next
    case False
    with k53 nn have k: "?k = 53" by linarith
    with lo assms have "?a = 2 ^ 53" by simp
    then have "n = 2 ^ 53 \<or> n = - (2 ^ 53)" by linarith
    then have "rat_of_int n / 2 = of_int (n div 2)"
      by auto
    moreover have "pow2 (max (binade (of_int n)) (- 1022) - 52) = 2"
      by (simp add: mx k pow2_def)
    ultimately have "rat_of_int n / pow2 (max (binade (of_int n)) (- 1022) - 52) =
        of_int (n div 2)"
      by simp
    then show ?thesis by (rule nearest_double_grid)
  qed
qed

lemma round_to_double_of_int:
  assumes "\<bar>n\<bar> \<le> 2 ^ 53"
  shows "round_to_double (of_int n) = Num (of_int n)"
proof (cases "n = 0")
  case True
  then show ?thesis by (simp add: round_to_double_def)
next
  case False
  have r: "nearest_double (of_int n) = of_int n"
    using assms by (rule nearest_double_of_int)
  have "rat_of_int \<bar>n\<bar> \<le> rat_of_int (2 ^ 53)"
    using assms by (simp only: of_int_le_iff)
  then have "\<bar>rat_of_int n\<bar> \<le> 2 ^ 53" by simp
  also have "(2::rat) ^ 53 < 2 ^ 1024"
    by (rule power_strict_increasing) simp_all
  also have "(2::rat) ^ 1024 = pow2 1024"
    by (simp only: pow2_powi power_int_numeral)
  finally have "\<not> pow2 1024 \<le> \<bar>rat_of_int n\<bar>" by simp
  with False r show ?thesis
    by (simp add: round_to_double_def Let_def)
qed

text \<open>Products and sums of integers are exact as long as they stay within \<open>2 ^ 53\<close>.\<close>

lemma js_times_of_int:
  assumes "\<bar>m * n\<bar> \<le> 2 ^ 53"
  shows "finite_value (js_times (Num (of_int m)) (Num (of_int n))) = Some (of_int (m * n))"
    and "m * n \<noteq> 0 \<Longrightarrow> js_times (Num (of_int m)) (Num (of_int n)) = Num (of_int (m * n))"
  using round_to_double_of_int [OF assms]
  by (auto simp add: js_times_def signed_zero_def simp flip: of_int_mult)


text \<open>Evaluating a product or a sum of finite numbers that stays in range.\<close>

lemma round_to_double_normal:
  assumes "nearest_double x = r" and "x \<noteq> 0" and "r \<noteq> 0" and "\<bar>r\<bar> < 2 ^ 1024"
  shows "round_to_double x = Num r"
proof -
  have "pow2 1024 = 2 ^ 1024" by (simp add: pow2_def)
  with assms show ?thesis
    by (simp add: round_to_double_def Let_def)
qed

lemma js_times_Num: "a * b \<noteq> 0 \<Longrightarrow> js_times (Num a) (Num b) = round_to_double (a * b)"
  by (simp add: js_times_def)

text \<open>The price 19.99 as a double, and its product with 100.\<close>

lemma nearest_double_19_99: "nearest_double (1999 / 100) = 5626684784446013 / 2 ^ 48"
  by code_simp

lemma round_to_double_19_99: "round_to_double (1999 / 100) = Num (5626684784446013 / 2 ^ 48)"
  by (rule round_to_double_normal [OF nearest_double_19_99]) simp_all

lemma nearest_double_19_99_times_1:
  "nearest_double (5626684784446013 / 2 ^ 48 * 1) = 5626684784446013 / 2 ^ 48"
  by code_simp

lemma nearest_double_19_99_times_100:
  "nearest_double (5626684784446013 / 2 ^ 48 * 100) = 1999 - 1 / 2 ^ 42"
  by code_simp

lemma js_times_19_99:
  "js_times (js_times (Num (5626684784446013 / 2 ^ 48)) (Num 1)) (Num 100) =
     Num (1999 - 1 / 2 ^ 42)"
proof -
  have "js_times (Num (5626684784446013 / 2 ^ 48)) (Num 1) =
      round_to_double (5626684784446013 / 2 ^ 48 * 1)"
    by (rule js_times_Num) simp
  also have "\<dots> = Num (5626684784446013 / 2 ^ 48)"
    by (rule round_to_double_normal [OF nearest_double_19_99_times_1]) simp_all
  finally have one: "js_times (Num (5626684784446013 / 2 ^ 48)) (Num 1) =
      Num (5626684784446013 / 2 ^ 48)" .
  have "js_times (Num (5626684784446013 / 2 ^ 48)) (Num 100) =
      round_to_double (5626684784446013 / 2 ^ 48 * 100)"
    by (rule js_times_Num) simp
  also have "\<dots> = Num (1999 - 1 / 2 ^ 42)"
    by (rule round_to_double_normal [OF nearest_double_19_99_times_100]) simp_all
  finally show ?thesis
    by (simp only: one)
qed

text \<open>A product beyond \<open>2 ^ 53\<close> is rounded: 1200 times \<open>2 ^ 53 - 1\<close>, exactly 10808639105689189200.\<close>

lemma nearest_double_huge:
  "nearest_double (1200 * 9007199254740991) = 10808639105689188352"
  by code_simp

lemma js_times_huge:
  "js_times (Num 1200) (Num 9007199254740991) = Num 10808639105689188352"
proof -
  have "js_times (Num 1200) (Num 9007199254740991) = round_to_double (1200 * 9007199254740991)"
    by (rule js_times_Num) simp
  also have "\<dots> = Num 10808639105689188352"
    by (rule round_to_double_normal [OF nearest_double_huge]) simp_all
  finally show ?thesis .
qed

text \<open>A number of magnitude \<open>2 ^ 1024\<close> or more overflows to an infinity.\<close>

lemma round_to_double_overflow:
  assumes "pow2 1024 \<le> \<bar>x\<bar>"
  shows "round_to_double x = signed_infinity (x < 0)"
proof -
  have x: "x \<noteq> 0"
    using assms pow2_pos [of 1024] by auto
  have "\<bar>x\<bar> < pow2 (binade x + 1)"
    using binade_bounds [OF x] by simp
  with assms have "pow2 1024 < pow2 (binade x + 1)" by simp
  then have "\<not> binade x + 1 \<le> 1024"
    using pow2_mono [of "binade x + 1" 1024] by auto
  then have b: "1024 \<le> binade x" by simp
  then have mx: "max (binade x) (- 1022) = binade x" by simp
  obtain m where m: "nearest_double x = of_int m * pow2 (binade x - 52)"
    and lo: "2 ^ 52 \<le> \<bar>m\<bar>"
    using nearest_double_significand [OF x] b by (auto simp add: mx)
  have "rat_of_int (2 ^ 52) \<le> rat_of_int \<bar>m\<bar>"
    using lo by (simp only: of_int_le_iff)
  then have "pow2 52 \<le> \<bar>rat_of_int m\<bar>"
    by (simp add: pow2_def)
  then have "pow2 52 * pow2 (binade x - 52) \<le> \<bar>rat_of_int m\<bar> * pow2 (binade x - 52)"
    using pow2_pos [of "binade x - 52"] by (simp only: mult_right_mono less_imp_le)
  moreover have "pow2 52 * pow2 (binade x - 52) = pow2 (binade x)"
    by (simp flip: pow2_add)
  moreover have "\<bar>nearest_double x\<bar> = \<bar>rat_of_int m\<bar> * pow2 (binade x - 52)"
    using pow2_pos [of "binade x - 52"] by (simp add: m abs_mult)
  ultimately have "pow2 (binade x) \<le> \<bar>nearest_double x\<bar>" by simp
  moreover have "pow2 1024 \<le> pow2 (binade x)"
    using b by (rule pow2_mono)
  ultimately have "pow2 1024 \<le> \<bar>nearest_double x\<bar>" by simp
  with x show ?thesis
    by (simp add: round_to_double_def Let_def)
qed

text \<open>The price 1e308 times the quantity 10 is \<^verbatim>\<open>Infinity\<close>.\<close>

lemma js_times_overflow:
  "js_times (Num 100000000000000001097906362944045541740492309677311846336810682903157585404911491537163328978494688899061249669721172515611590283743140088328307009198146046031271664502933027185697489699588559043338384466165001178426897626212945177628091195786707458122783970171784415105291802893207873272974885715430223118336) (Num 10) = PosInfinity"
proof -
  have "js_times (Num 100000000000000001097906362944045541740492309677311846336810682903157585404911491537163328978494688899061249669721172515611590283743140088328307009198146046031271664502933027185697489699588559043338384466165001178426897626212945177628091195786707458122783970171784415105291802893207873272974885715430223118336) (Num 10) = round_to_double (100000000000000001097906362944045541740492309677311846336810682903157585404911491537163328978494688899061249669721172515611590283743140088328307009198146046031271664502933027185697489699588559043338384466165001178426897626212945177628091195786707458122783970171784415105291802893207873272974885715430223118336 * 10)"
    by (rule js_times_Num) simp
  also have "\<dots> = signed_infinity (100000000000000001097906362944045541740492309677311846336810682903157585404911491537163328978494688899061249669721172515611590283743140088328307009198146046031271664502933027185697489699588559043338384466165001178426897626212945177628091195786707458122783970171784415105291802893207873272974885715430223118336 * 10 < (0::rat))"
    by (rule round_to_double_overflow) (simp add: pow2_def)
  finally show ?thesis by (simp add: signed_infinity_def)
qed

text \<open>Three times \<open>2 ^ 53 - 1\<close>, exactly 27021597764222973.\<close>

lemma nearest_double_3_huge: "nearest_double (9007199254740991 * 3) = 27021597764222972"
  by code_simp

lemma js_times_3_huge: "js_times (Num 9007199254740991) (Num 3) = Num 27021597764222972"
proof -
  have "js_times (Num 9007199254740991) (Num 3) = round_to_double (9007199254740991 * 3)"
    by (rule js_times_Num) simp
  also have "\<dots> = Num 27021597764222972"
    by (rule round_to_double_normal [OF nearest_double_3_huge]) simp_all
  finally show ?thesis .
qed

section \<open>Properties of the amount calculator\<close>















text \<open>
  Beyond the exact range the total is the rounded one: for 9007199254740991 sets of pins
  at 1200 the calculator returns 10808639105689188352, which is not the exact product
  10808639105689189200.
\<close>

lemma calculatePaymentAmount_huge:
  "calculatePaymentAmount demo_runtime demo_catalog huge_basket =
     Inr (Num 10808639105689188352)"
proof -
  have "js_plus (Num 0) (Num 10808639105689188352) = round_to_double 10808639105689188352"
    by (simp add: js_plus_def)
  also have "\<dots> = Num 10808639105689188352"
  proof (rule round_to_double_normal)
    show "nearest_double 10808639105689188352 = 10808639105689188352"
      by code_simp
  qed simp_all
  finally show ?thesis
    by (simp add: calculatePaymentAmount_def catalog_defs js_multiply_def to_number_def
        js_times_huge)
qed

section \<open>Properties of the effects\<close>

lemma calls_called [simp]: "calls (called c s) = calls s @ [c]"
  by (simp add: called_def)

lemma calls_console_log [simp]: "calls (console_log l s) = calls s"
  by (simp add: console_log_def)

lemma logged_called [simp]: "logged (called c s) = logged s"
  by (simp add: called_def)

lemma logged_console_log [simp]: "logged (console_log l s) = logged s @ [l]"
  by (simp add: console_log_def)

lemma new_calls_called: "new_calls s (called c s) = [c]"
  by (simp add: new_calls_def)

lemma new_calls_console_log: "new_calls s (console_log l s') = new_calls s s'"
  by (simp add: new_calls_def)

section \<open>Properties of the route that creates a PaymentIntent\<close>

text \<open>
  When price and quantity convert, the handler makes one call, whose amount is
  \<^verbatim>\<open>price * quantity * 100\<close> in JavaScript's arithmetic; when a conversion throws, it
  makes none and answers 500 with the message of the error.
\<close>

lemma post_payment_intents_calls:
  assumes "js_multiply rt (body_price b) (body_quantity b) = Inr line"
  shows "new_calls s (snd (post_payment_intents cfg rt api b s)) =
     [Create \<lparr>amount = js_times line (Num 100),
              currency = body_currency b,
              description = productName b,
              create_metadata = request_metadata b,
              payment_method_types =
                filter (\<lambda>paymentMethod. paymentMethod \<noteq> ''au_becs_debit'')
                  (paymentMethods cfg)\<rparr>]"
  using assms
  by (simp add: post_payment_intents_def Let_def new_calls_called new_calls_console_log
      split: sum.splits)

lemma post_payment_intents_conversion:
  assumes "js_multiply rt (body_price b) (body_quantity b) = Inl m"
  shows "post_payment_intents cfg rt api b s =
     (Responded 500 (Json_error m), console_log (Log_error m) s)"
  using assms by (simp add: post_payment_intents_def)

lemma js_multiply_cases:
  "js_multiply rt v w =
     (if numeric rt v \<and> numeric rt w
      then Inr (js_times (number_of rt v) (number_of rt w))
      else Inl (case to_number rt v of
                  Inl m \<Rightarrow> m
                | Inr x \<Rightarrow> (case to_number rt w of Inl m \<Rightarrow> m | Inr y \<Rightarrow> [])))"
  by (simp add: js_multiply_def numeric_def number_of_def split: sum.splits)

text \<open>
  For an integer price and quantity the amount is exact as long as
  \<open>price \<times> quantity \<times> 100\<close> stays within \<open>2 ^ 53\<close>.
\<close>

lemma js_times_exact:
  assumes "\<bar>p * q * 100\<bar> \<le> 2 ^ 53" and "p * q \<noteq> 0"
  shows "js_times (js_times (Num (of_int p)) (Num (of_int q))) (Num 100) =
     Num (of_int (p * q * 100))"
proof -
  have "\<bar>p * q\<bar> \<le> \<bar>p * q\<bar> * 100" by simp
  also have "\<dots> = \<bar>p * q * 100\<bar>" by (simp add: abs_mult)
  finally have "\<bar>p * q\<bar> \<le> 2 ^ 53" using assms(1) by linarith
  then have "js_times (Num (of_int p)) (Num (of_int q)) = Num (of_int (p * q))"
    using assms(2) by (rule js_times_of_int(2))
  moreover have "js_times (Num (of_int (p * q))) (Num (of_int 100)) =
      Num (of_int (p * q * 100))"
    using assms by (intro js_times_of_int(2)) simp_all
  ultimately show ?thesis by simp
qed

lemma post_payment_intents_exact:
  assumes "body_price b = Number (Num (of_int p))"
    and "body_quantity b = Number (Num (of_int q))"
    and "\<bar>p * q * 100\<bar> \<le> 2 ^ 53" and "p * q \<noteq> 0"
  shows "map amount (created (new_calls s (snd (post_payment_intents cfg rt api b s)))) =
     [Num (of_int (p * q * 100))]"
proof -
  have "js_multiply rt (body_price b) (body_quantity b) =
      Inr (js_times (Num (of_int p)) (Num (of_int q)))"
    using assms(1,2) by (simp add: js_multiply_def to_number_def)
  from post_payment_intents_calls [OF this] js_times_exact [OF assms(3,4)]
  show ?thesis by simp
qed

text \<open>
  Claim C5. The amount asked for is \<^verbatim>\<open>price * quantity * 100\<close> computed in doubles
  and never rounded to an integer. For the price 10.00 and the quantity 2 it is 2000.
  For one item at the price 19.99 (the double \<open>5626684784446013 / 2 ^ 48\<close>) it is
  1998.9999999999998, that is \<open>1999 - 1 / 2 ^ 42\<close>, and not the 1999 minor units of
  \<open>price \<times> quantity \<times> 100\<close>.
\<close>

theorem payment_intents_amount_fractional:
  "body_price fractional_body = Number (Num (5626684784446013 / 2 ^ 48)) \<and>
   body_quantity fractional_body = Number (Num 1) \<and>
   map amount (created (new_calls fresh
     (snd (post_payment_intents signed_config demo_runtime demo_stripe fractional_body
        fresh)))) = [Num (1999 - 1 / 2 ^ 42)] \<and>
   Num (1999 - 1 / 2 ^ 42) \<noteq> Num 1999 \<and>
   map amount (created (new_calls fresh
     (snd (post_payment_intents signed_config demo_runtime demo_stripe demo_body
        fresh)))) = [Num 2000]"
proof -
  have f: "body_price fractional_body = Number (Num (5626684784446013 / 2 ^ 48))"
    "body_quantity fractional_body = Number (Num 1)"
    by (simp_all add: fractional_body_def json_number_def round_to_double_19_99
        round_to_double_of_int [of 1, simplified])
  then have "js_multiply demo_runtime (body_price fractional_body)
      (body_quantity fractional_body) =
      Inr (js_times (Num (5626684784446013 / 2 ^ 48)) (Num 1))"
    by (simp only: js_multiply_def to_number_def) simp
  from post_payment_intents_calls [OF this]
  have a: "map amount (created (new_calls fresh
     (snd (post_payment_intents signed_config demo_runtime demo_stripe fractional_body
        fresh)))) = [Num (1999 - 1 / 2 ^ 42)]"
    by (simp only: js_times_19_99) simp
  have "body_price demo_body = Number (Num (of_int 10))"
    "body_quantity demo_body = Number (Num (of_int 2))"
    by (simp_all add: demo_body_def)
  then have "map amount (created (new_calls fresh
     (snd (post_payment_intents signed_config demo_runtime demo_stripe demo_body
        fresh)))) = [Num (of_int (10 * 2 * 100))]"
    by (rule post_payment_intents_exact) simp_all
  then have d: "map amount (created (new_calls fresh
     (snd (post_payment_intents signed_config demo_runtime demo_stripe demo_body
        fresh)))) = [Num 2000]"
    by simp
  have n: "Num (1999 - 1 / 2 ^ 42) \<noteq> Num 1999" by simp
  from f a n d show ?thesis by (intro conjI)
qed

lemma filter_removeAll: "filter (\<lambda>y. y \<noteq> x) xs = removeAll x xs"
  by (induction xs) auto

text \<open>
  Claim C8. Every \<^verbatim>\<open>paymentIntents.create\<close> call of the handler carries as
  \<^verbatim>\<open>payment_method_types\<close> the configured payment methods with every
  \<^verbatim>\<open>au_becs_debit\<close> removed and the other methods kept in their order. The handler
  makes exactly one such call whenever price and quantity convert to numbers, as every
  number, string, boolean, \<^verbatim>\<open>null\<close> and absent value does; when a conversion
  throws, it calls nothing and answers 500.
\<close>

theorem payment_intents_payment_method_types:
  "list_all (\<lambda>p. payment_method_types p = removeAll ''au_becs_debit'' (paymentMethods cfg))
     (created (new_calls s (snd (post_payment_intents cfg rt api b s)))) \<and>
   (numeric rt (body_price b) \<and> numeric rt (body_quantity b) \<longrightarrow>
      map payment_method_types
        (created (new_calls s (snd (post_payment_intents cfg rt api b s)))) =
        [removeAll ''au_becs_debit'' (paymentMethods cfg)]) \<and>
   (\<not> (numeric rt (body_price b) \<and> numeric rt (body_quantity b)) \<longrightarrow>
      new_calls s (snd (post_payment_intents cfg rt api b s)) = [] \<and>
      (\<exists>m. fst (post_payment_intents cfg rt api b s) = Responded 500 (Json_error m)))"
proof (cases "numeric rt (body_price b) \<and> numeric rt (body_quantity b)")
  case True
  then have "js_multiply rt (body_price b) (body_quantity b) =
      Inr (js_times (number_of rt (body_price b)) (number_of rt (body_quantity b)))"
    by (simp add: js_multiply_cases)
  from post_payment_intents_calls [OF this] True show ?thesis
    by (simp add: filter_removeAll)
next
  case False
  then obtain m where "js_multiply rt (body_price b) (body_quantity b) = Inl m"
    by (simp add: js_multiply_cases)
  then have "post_payment_intents cfg rt api b s =
      (Responded 500 (Json_error m), console_log (Log_error m) s)"
    by (rule post_payment_intents_conversion)
  with False show ?thesis
    by (simp add: new_calls_def)
qed

theorem payment_intents_payment_method_types_witness:
  "numeric demo_runtime (body_price demo_body) \<and>
   numeric demo_runtime (body_quantity demo_body) \<and>
   map payment_method_types
     (created (new_calls fresh
        (snd (post_payment_intents signed_config demo_runtime demo_stripe demo_body
           fresh)))) = [[''card'', ''ideal'']] \<and>
   \<not> numeric demo_runtime (body_price object_body) \<and>
   new_calls fresh
     (snd (post_payment_intents signed_config demo_runtime demo_stripe object_body
        fresh)) = []"
proof -
  have h: "numeric demo_runtime (body_price demo_body) \<and>
      numeric demo_runtime (body_quantity demo_body)"
    by (simp add: numeric_def to_number_def demo_body_def)
  have o: "\<not> numeric demo_runtime (body_price object_body)"
    by (simp add: numeric_def to_number_def object_body_def demo_runtime_def)
  then have no: "\<not> (numeric demo_runtime (body_price object_body) \<and>
      numeric demo_runtime (body_quantity object_body))"
    by simp
  note t = payment_intents_payment_method_types
    [of signed_config fresh demo_runtime demo_stripe demo_body]
  note u = payment_intents_payment_method_types
    [of signed_config fresh demo_runtime demo_stripe object_body]
  have "map payment_method_types
     (created (new_calls fresh
        (snd (post_payment_intents signed_config demo_runtime demo_stripe demo_body
           fresh)))) = [removeAll ''au_becs_debit'' (paymentMethods signed_config)]"
    using t [THEN conjunct2, THEN conjunct1] h by (rule mp)
  then have c: "map payment_method_types
     (created (new_calls fresh
        (snd (post_payment_intents signed_config demo_runtime demo_stripe demo_body
           fresh)))) = [[''card'', ''ideal'']]"
    by (simp add: signed_config_def)
  have "new_calls fresh
     (snd (post_payment_intents signed_config demo_runtime demo_stripe object_body
        fresh)) = [] \<and>
     (\<exists>m. fst (post_payment_intents signed_config demo_runtime demo_stripe object_body
        fresh) = Responded 500 (Json_error m))"
    using u [THEN conjunct2, THEN conjunct2] no by (rule mp)
  then have d: "new_calls fresh
     (snd (post_payment_intents signed_config demo_runtime demo_stripe object_body
        fresh)) = []"
    by (rule conjunct1)
  from h o c d show ?thesis by simp
qed

text \<open>A price that cannot be converted: no call is made and the answer is 500.\<close>

lemma post_payment_intents_object:
  "post_payment_intents signed_config demo_runtime demo_stripe object_body fresh =
     (Responded 500 (Json_error ''Cannot convert object to primitive value''),
      \<lparr>logged = [Log_error ''Cannot convert object to primitive value''], calls = []\<rparr>)"
  by (simp add: post_payment_intents_def js_multiply_def to_number_def object_body_def
      demo_body_def demo_runtime_def console_log_def fresh_def)

text \<open>
  A product that overflows is sent as \<^verbatim>\<open>Infinity\<close> (the price 1e308 with the
  quantity 10), and an absent price makes the amount \<^verbatim>\<open>NaN\<close>.
\<close>

lemma post_payment_intents_overflow:
  "map amount (created (new_calls fresh
     (snd (post_payment_intents signed_config demo_runtime demo_stripe
        (demo_body\<lparr>body_price := Number (Num 100000000000000001097906362944045541740492309677311846336810682903157585404911491537163328978494688899061249669721172515611590283743140088328307009198146046031271664502933027185697489699588559043338384466165001178426897626212945177628091195786707458122783970171784415105291802893207873272974885715430223118336), body_quantity := Number (Num 10)\<rparr>)
        fresh)))) = [PosInfinity]"
proof -
  have "js_multiply demo_runtime
      (body_price (demo_body\<lparr>body_price := Number (Num 100000000000000001097906362944045541740492309677311846336810682903157585404911491537163328978494688899061249669721172515611590283743140088328307009198146046031271664502933027185697489699588559043338384466165001178426897626212945177628091195786707458122783970171784415105291802893207873272974885715430223118336),
         body_quantity := Number (Num 10)\<rparr>))
      (body_quantity (demo_body\<lparr>body_price := Number (Num 100000000000000001097906362944045541740492309677311846336810682903157585404911491537163328978494688899061249669721172515611590283743140088328307009198146046031271664502933027185697489699588559043338384466165001178426897626212945177628091195786707458122783970171784415105291802893207873272974885715430223118336),
         body_quantity := Number (Num 10)\<rparr>)) = Inr PosInfinity"
    by (simp add: js_multiply_def to_number_def js_times_overflow)
  from post_payment_intents_calls [OF this] show ?thesis
    by (simp add: js_times_def signed_infinity_def)
qed

lemma post_payment_intents_missing_price:
  "map amount (created (new_calls fresh
     (snd (post_payment_intents signed_config demo_runtime demo_stripe
        (demo_body\<lparr>body_price := Undefined\<rparr>) fresh)))) = [NaN]"
proof -
  have "js_multiply demo_runtime (body_price (demo_body\<lparr>body_price := Undefined\<rparr>))
      (body_quantity (demo_body\<lparr>body_price := Undefined\<rparr>)) = Inr NaN"
    by (simp add: js_multiply_def to_number_def js_times_def demo_body_def)
  from post_payment_intents_calls [OF this] show ?thesis
    by (simp add: js_times_def)
qed

section \<open>Properties of the blocks of the webhook handler\<close>

lemma monitor_payment_intent_other:
  "object obj \<noteq> ''payment_intent'' \<Longrightarrow> monitor_payment_intent t obj = Inr []"
  by (simp add: monitor_payment_intent_def)

lemma monitor_chargeable_skip:
  "object obj \<noteq> ''source'' \<or> status obj \<noteq> ''chargeable'' \<Longrightarrow>
   monitor_chargeable api obj s = (None, s)"
  by (auto simp add: monitor_chargeable_def)

lemma monitor_failed_skip:
  "object obj \<noteq> ''source'' \<or> (status obj \<noteq> ''failed'' \<and> status obj \<noteq> ''canceled'') \<Longrightarrow>
   monitor_failed api obj s = (None, s)"
  by (auto simp add: monitor_failed_def)

text \<open>The first block makes at most a retrieve and a confirm, the second at most a cancel.\<close>

lemma monitor_chargeable_calls:
  "\<exists>cs. calls (snd (monitor_chargeable api obj s)) = calls s @ cs \<and>
        length (filter mutating cs) \<le> 1 \<and> \<not> list_ex is_cancel cs"
  by (simp add: monitor_chargeable_def Let_def split: option.splits sum.splits)

lemma monitor_failed_calls:
  "\<exists>cs. calls (snd (monitor_failed api obj s)) = calls s @ cs \<and>
        length (filter mutating cs) \<le> 1 \<and> \<not> list_ex is_confirm cs"
  by (simp add: monitor_failed_def Let_def split: option.splits sum.splits)

lemma monitor_failed_cancel:
  assumes "object obj = ''source''"
    and "status obj = ''failed'' \<or> status obj = ''canceled''"
    and "metadata obj = Some md"
    and "md ''paymentIntent'' = Some X"
    and "X \<noteq> []"
  shows "calls (snd (monitor_failed api obj s)) = calls s @ [Cancel X]"
proof (cases "api (calls s) (Cancel X)")
  case (Inl m)
  with assms show ?thesis by (simp add: monitor_failed_def Let_def)
next
  case (Inr r)
  with assms show ?thesis by (simp add: monitor_failed_def Let_def)
qed

lemma dispatch_threw_early:
  "monitor_payment_intent (event_type ev) (data_object ev) = Inl err \<Longrightarrow>
   dispatch api ev s = (Threw err, s)"
  by (simp add: dispatch_def)

text \<open>The two source blocks exclude each other: one status cannot pass both tests.\<close>

lemma dispatch_calls_chargeable:
  assumes "status (data_object ev) = ''chargeable''"
    and "monitor_payment_intent (event_type ev) (data_object ev) = Inr ls"
  shows "calls (snd (dispatch api ev s)) =
         calls (snd (monitor_chargeable api (data_object ev) (s\<lparr>logged := logged s @ ls\<rparr>)))"
proof -
  have "monitor_failed api (data_object ev) t = (None, t)" for t
    using assms(1) by (simp add: monitor_failed_skip)
  with assms(2) show ?thesis
    by (simp add: dispatch_def Let_def split: prod.splits option.splits)
qed

lemma dispatch_calls_other:
  assumes "status (data_object ev) \<noteq> ''chargeable''"
    and "monitor_payment_intent (event_type ev) (data_object ev) = Inr ls"
  shows "calls (snd (dispatch api ev s)) =
         calls (snd (monitor_failed api (data_object ev) (s\<lparr>logged := logged s @ ls\<rparr>)))"
proof -
  have "monitor_chargeable api (data_object ev) t = (None, t)" for t
    using assms(1) by (simp add: monitor_chargeable_skip)
  with assms(2) show ?thesis
    by (simp add: dispatch_def Let_def split: prod.splits option.splits)
qed

section \<open>Properties of the webhook handler\<close>

text \<open>
  Claim C2. When a signing secret is configured and the signature check throws, the
  handler answers 400 and has made no call on the provider: the calls are those made
  before the delivery.
\<close>

theorem webhook_bad_signature:
  assumes "webhookSecret cfg = Some secret"
    and "secret \<noteq> []"
    and "constructEvent (rawBody req) (stripe_signature req) secret = Inl err"
  shows "fst (webhook cfg constructEvent api req s) = Responded 400 Status_text \<and>
         new_calls s (snd (webhook cfg constructEvent api req s)) = [] \<and>
         calls (snd (webhook cfg constructEvent api req s)) = calls s"
  using assms by (simp add: webhook_def received_event_def new_calls_def)

theorem webhook_bad_signature_witness:
  "webhookSecret signed_config = Some ''whsec_1'' \<and> ''whsec_1'' \<noteq> [] \<and>
   demo_constructEvent failed_event (rawBody (delivery (Some ''forged'') failed_event))
     (stripe_signature (delivery (Some ''forged'') failed_event)) ''whsec_1'' =
     Inl (StripeError ''No signatures found matching the expected signature'') \<and>
   fst (webhook signed_config (demo_constructEvent failed_event) demo_stripe
          (delivery (Some ''forged'') failed_event) fresh) = Responded 400 Status_text \<and>
   calls (snd (webhook signed_config (demo_constructEvent failed_event) demo_stripe
          (delivery (Some ''forged'') failed_event) fresh)) = []"
proof -
  have h1: "webhookSecret signed_config = Some ''whsec_1''"
    by (simp add: demo_defs)
  have h2: "''whsec_1'' \<noteq> []"
    by simp
  have h3: "demo_constructEvent failed_event (rawBody (delivery (Some ''forged'') failed_event))
     (stripe_signature (delivery (Some ''forged'') failed_event)) ''whsec_1'' =
     Inl (StripeError ''No signatures found matching the expected signature'')"
    by (simp add: demo_defs)
  from webhook_bad_signature [where cfg = signed_config
        and constructEvent = "demo_constructEvent failed_event"
        and req = "delivery (Some ''forged'') failed_event"
        and api = demo_stripe and s = fresh, OF h1 h2 h3]
  show ?thesis
    using h1 h3 by (simp add: fresh_def)
qed

text \<open>
  Claim C1. For the event the handler goes on with, when its object is a source of
  status \<^verbatim>\<open>chargeable\<close> whose metadata names a PaymentIntent, the handler retrieves
  that intent. If the retrieved status is not \<^verbatim>\<open>requires_payment_method\<close>, it answers
  403 and the retrieval is its only call; if it is, the handler then confirms the
  retrieved intent with the id of the source.
\<close>

theorem webhook_chargeable:
  assumes "received_event cfg constructEvent req = Some ev"
    and "object (data_object ev) = ''source''"
    and "status (data_object ev) = ''chargeable''"
    and "metadata (data_object ev) = Some md"
    and "md ''paymentIntent'' = Some pid"
    and "pid \<noteq> []"
    and "api (calls s) (Retrieve pid) = Inr paymentIntent"
  shows "(status paymentIntent \<noteq> ''requires_payment_method'' \<longrightarrow>
            fst (webhook cfg constructEvent api req s) = Responded 403 Status_text \<and>
            new_calls s (snd (webhook cfg constructEvent api req s)) = [Retrieve pid]) \<and>
         (status paymentIntent = ''requires_payment_method'' \<longrightarrow>
            new_calls s (snd (webhook cfg constructEvent api req s)) =
              [Retrieve pid, Confirm (obj_id paymentIntent) (obj_id (data_object ev))])"
  using assms
  by (simp add: webhook_def dispatch_def monitor_payment_intent_def monitor_chargeable_def
      monitor_failed_def Let_def new_calls_def split: sum.splits)

theorem webhook_chargeable_witness:
  "received_event signed_config (demo_constructEvent chargeable_event)
     (delivery (Some ''good'') chargeable_event) = Some chargeable_event \<and>
   object (data_object chargeable_event) = ''source'' \<and>
   status (data_object chargeable_event) = ''chargeable'' \<and>
   metadata (data_object chargeable_event) = Some [''paymentIntent'' \<mapsto> ''pi_1''] \<and>
   [''paymentIntent'' \<mapsto> ''pi_1''] ''paymentIntent'' = Some ''pi_1'' \<and>
   ''pi_1'' \<noteq> [] \<and>
   demo_stripe (calls fresh) (Retrieve ''pi_1'') =
     Inr (demo_intent ''pi_1'' ''requires_payment_method'') \<and>
   demo_stripe (calls first_delivery) (Retrieve ''pi_1'') =
     Inr (demo_intent ''pi_1'' ''succeeded'') \<and>
   new_calls fresh
     (snd (webhook signed_config (demo_constructEvent chargeable_event) demo_stripe
        (delivery (Some ''good'') chargeable_event) fresh)) =
     [Retrieve ''pi_1'', Confirm ''pi_1'' ''src_1''] \<and>
   fst (webhook signed_config (demo_constructEvent chargeable_event) demo_stripe
        (delivery (Some ''good'') chargeable_event) first_delivery) =
     Responded 403 Status_text \<and>
   new_calls first_delivery
     (snd (webhook signed_config (demo_constructEvent chargeable_event) demo_stripe
        (delivery (Some ''good'') chargeable_event) first_delivery)) = [Retrieve ''pi_1'']"
proof -
  have h1: "received_event signed_config (demo_constructEvent chargeable_event)
     (delivery (Some ''good'') chargeable_event) = Some chargeable_event"
    by (simp add: received_event_def demo_defs)
  have h2: "object (data_object chargeable_event) = ''source''"
    by (simp add: event_defs demo_defs)
  have h3: "status (data_object chargeable_event) = ''chargeable''"
    by (simp add: event_defs demo_defs)
  have h4: "metadata (data_object chargeable_event) = Some [''paymentIntent'' \<mapsto> ''pi_1'']"
    by (simp add: event_defs demo_defs)
  have h5: "[''paymentIntent'' \<mapsto> ''pi_1''] ''paymentIntent'' = Some ''pi_1''"
    by simp
  have h6: "''pi_1'' \<noteq> []"
    by simp
  have h7: "demo_stripe (calls fresh) (Retrieve ''pi_1'') =
     Inr (demo_intent ''pi_1'' ''requires_payment_method'')"
    by (simp add: demo_defs)
  have h8: "demo_stripe (calls first_delivery) (Retrieve ''pi_1'') =
     Inr (demo_intent ''pi_1'' ''succeeded'')"
    by (simp add: demo_defs event_defs)
  have a: "obj_id (demo_intent ''pi_1'' ''requires_payment_method'') = ''pi_1''"
    "status (demo_intent ''pi_1'' ''requires_payment_method'') = ''requires_payment_method''"
    "status (demo_intent ''pi_1'' ''succeeded'') \<noteq> ''requires_payment_method''"
    "obj_id (data_object chargeable_event) = ''src_1''"
    by (simp_all add: demo_defs event_defs)
  from webhook_chargeable [where api = demo_stripe and s = fresh
        and md = "[''paymentIntent'' \<mapsto> ''pi_1'']", OF h1 h2 h3 h4 h5 h6 h7]
    webhook_chargeable [where api = demo_stripe and s = first_delivery
        and md = "[''paymentIntent'' \<mapsto> ''pi_1'']", OF h1 h2 h3 h4 h5 h6 h8]
  show ?thesis
    using h1 h2 h3 h4 h7 h8 by (simp add: a)
qed

text \<open>
  Claim C3. For the event the handler goes on with, when its object is a source of
  status \<^verbatim>\<open>failed\<close> or \<^verbatim>\<open>canceled\<close> whose metadata names the PaymentIntent \<open>X\<close>, the
  calls of the handler are exactly one cancel of \<open>X\<close>: no other intent is touched and
  \<open>X\<close> is not retrieved first, whatever the provider would answer.
\<close>

theorem webhook_failed_cancel:
  assumes "received_event cfg constructEvent req = Some ev"
    and "object (data_object ev) = ''source''"
    and "status (data_object ev) = ''failed'' \<or> status (data_object ev) = ''canceled''"
    and "metadata (data_object ev) = Some md"
    and "md ''paymentIntent'' = Some X"
    and "X \<noteq> []"
  shows "new_calls s (snd (webhook cfg constructEvent api req s)) = [Cancel X]"
proof -
  let ?obj = "data_object ev"
  have pi: "monitor_payment_intent (event_type ev) ?obj = Inr []"
    using assms(2) by (simp add: monitor_payment_intent_other)
  have ch: "status ?obj \<noteq> ''chargeable''"
    using assms(3) by auto
  have "calls (snd (dispatch api ev s)) = calls (snd (monitor_failed api ?obj s))"
    using dispatch_calls_other [OF ch pi] by simp
  also have "\<dots> = calls s @ [Cancel X]"
    using assms(2-6) by (rule monitor_failed_cancel)
  finally show ?thesis
    using assms(1) by (simp add: webhook_def new_calls_def)
qed

theorem webhook_failed_cancel_witness:
  "received_event unsigned_config (demo_constructEvent failed_event)
     (delivery None failed_event) = Some failed_event \<and>
   object (data_object failed_event) = ''source'' \<and>
   (status (data_object failed_event) = ''failed'' \<or>
    status (data_object failed_event) = ''canceled'') \<and>
   metadata (data_object failed_event) = Some [''paymentIntent'' \<mapsto> ''pi_1''] \<and>
   [''paymentIntent'' \<mapsto> ''pi_1''] ''paymentIntent'' = Some ''pi_1'' \<and>
   ''pi_1'' \<noteq> [] \<and>
   new_calls first_delivery
     (snd (webhook unsigned_config (demo_constructEvent failed_event) demo_stripe
        (delivery None failed_event) first_delivery)) = [Cancel ''pi_1'']"
proof -
  have h1: "received_event unsigned_config (demo_constructEvent failed_event)
     (delivery None failed_event) = Some failed_event"
    by (simp add: received_event_def demo_defs)
  have h2: "object (data_object failed_event) = ''source''"
    by (simp add: event_defs demo_defs)
  have h3: "status (data_object failed_event) = ''failed'' \<or>
    status (data_object failed_event) = ''canceled''"
    by (simp add: event_defs demo_defs)
  have h4: "metadata (data_object failed_event) = Some [''paymentIntent'' \<mapsto> ''pi_1'']"
    by (simp add: event_defs demo_defs)
  have h5: "[''paymentIntent'' \<mapsto> ''pi_1''] ''paymentIntent'' = Some ''pi_1''"
    by simp
  have h6: "''pi_1'' \<noteq> []"
    by simp
  from webhook_failed_cancel [where api = demo_stripe and s = first_delivery
        and md = "[''paymentIntent'' \<mapsto> ''pi_1'']", OF h1 h2 h3 h4 h5 h6]
  show ?thesis
    using h1 h2 h3 h4 by simp
qed

text \<open>
  Claim C9. For the event the handler goes on with, at most one of its calls changes
  the provider's state. A confirm is made only for an object of status
  \<^verbatim>\<open>chargeable\<close> and a cancel only for one of status \<^verbatim>\<open>failed\<close> or \<^verbatim>\<open>canceled\<close>, so
  one delivery never makes both.
\<close>

theorem webhook_at_most_one_mutation:
  assumes "received_event cfg constructEvent req = Some ev"
  shows "length (filter mutating
           (new_calls s (snd (webhook cfg constructEvent api req s)))) \<le> 1 \<and>
         (list_ex is_confirm (new_calls s (snd (webhook cfg constructEvent api req s))) \<longrightarrow>
            status (data_object ev) = ''chargeable'') \<and>
         (list_ex is_cancel (new_calls s (snd (webhook cfg constructEvent api req s))) \<longrightarrow>
            status (data_object ev) = ''failed'' \<or> status (data_object ev) = ''canceled'')"
proof -
  let ?obj = "data_object ev"
  let ?new = "new_calls s (snd (dispatch api ev s))"
  have w: "webhook cfg constructEvent api req s = dispatch api ev s"
    using assms by (simp add: webhook_def)
  have "length (filter mutating ?new) \<le> 1 \<and>
        (list_ex is_confirm ?new \<longrightarrow> status ?obj = ''chargeable'') \<and>
        (list_ex is_cancel ?new \<longrightarrow> status ?obj = ''failed'' \<or> status ?obj = ''canceled'')"
  proof (cases "monitor_payment_intent (event_type ev) ?obj")
    case (Inl err)
    then have "?new = []"
      by (simp add: dispatch_threw_early new_calls_def)
    then show ?thesis by simp
  next
    case (Inr ls)
    let ?s1 = "s\<lparr>logged := logged s @ ls\<rparr>"
    have s1: "calls ?s1 = calls s" by simp
    show ?thesis
    proof (cases "status ?obj = ''chargeable''")
      case True
      obtain cs where cs: "calls (snd (monitor_chargeable api ?obj ?s1)) = calls ?s1 @ cs"
        "length (filter mutating cs) \<le> 1" "\<not> list_ex is_cancel cs"
        using monitor_chargeable_calls by blast
      have "?new = cs"
        using dispatch_calls_chargeable [OF True Inr] cs(1) s1
        by (simp add: new_calls_def)
      with cs True show ?thesis by simp
    next
      case False
      obtain cs where cs: "calls (snd (monitor_failed api ?obj ?s1)) = calls ?s1 @ cs"
        "length (filter mutating cs) \<le> 1" "\<not> list_ex is_confirm cs"
        using monitor_failed_calls by blast
      have new: "?new = cs"
        using dispatch_calls_other [OF False Inr] cs(1) s1
        by (simp add: new_calls_def)
      have "list_ex is_cancel cs \<longrightarrow>
          status ?obj = ''failed'' \<or> status ?obj = ''canceled''"
      proof (cases "status ?obj = ''failed'' \<or> status ?obj = ''canceled''")
        case True
        then show ?thesis by simp
      next
        case False
        then have "monitor_failed api ?obj ?s1 = (None, ?s1)"
          by (simp add: monitor_failed_skip)
        with cs(1) have "cs = []" by simp
        then show ?thesis by simp
      qed
      with cs new show ?thesis by simp
    qed
  qed
  with w show ?thesis by simp
qed

theorem webhook_at_most_one_mutation_witness:
  "received_event signed_config (demo_constructEvent chargeable_event)
     (delivery (Some ''good'') chargeable_event) = Some chargeable_event \<and>
   new_calls fresh
     (snd (webhook signed_config (demo_constructEvent chargeable_event) demo_stripe
        (delivery (Some ''good'') chargeable_event) fresh)) =
     [Retrieve ''pi_1'', Confirm ''pi_1'' ''src_1''] \<and>
   length (filter mutating (new_calls fresh
     (snd (webhook signed_config (demo_constructEvent chargeable_event) demo_stripe
        (delivery (Some ''good'') chargeable_event) fresh)))) \<le> 1 \<and>
   status (data_object chargeable_event) = ''chargeable'' \<and>
   received_event unsigned_config (demo_constructEvent failed_event)
     (delivery None failed_event) = Some failed_event \<and>
   new_calls fresh
     (snd (webhook unsigned_config (demo_constructEvent failed_event) demo_stripe
        (delivery None failed_event) fresh)) = [Cancel ''pi_1''] \<and>
   length (filter mutating (new_calls fresh
     (snd (webhook unsigned_config (demo_constructEvent failed_event) demo_stripe
        (delivery None failed_event) fresh)))) \<le> 1 \<and>
   (status (data_object failed_event) = ''failed'' \<or>
    status (data_object failed_event) = ''canceled'')"
proof -
  have h1: "received_event signed_config (demo_constructEvent chargeable_event)
     (delivery (Some ''good'') chargeable_event) = Some chargeable_event"
    by (simp add: received_event_def demo_defs)
  have c1: "new_calls fresh
     (snd (webhook signed_config (demo_constructEvent chargeable_event) demo_stripe
        (delivery (Some ''good'') chargeable_event) fresh)) =
     [Retrieve ''pi_1'', Confirm ''pi_1'' ''src_1'']"
    by (simp add: webhook_defs demo_defs event_defs)
  have h2: "received_event unsigned_config (demo_constructEvent failed_event)
     (delivery None failed_event) = Some failed_event"
    by (simp add: received_event_def demo_defs)
  have c2: "new_calls fresh
     (snd (webhook unsigned_config (demo_constructEvent failed_event) demo_stripe
        (delivery None failed_event) fresh)) = [Cancel ''pi_1'']"
    by (simp add: webhook_defs demo_defs event_defs)
  from webhook_at_most_one_mutation [where api = demo_stripe and s = fresh, OF h1]
    webhook_at_most_one_mutation [where api = demo_stripe and s = fresh, OF h2]
    h1 c1 h2 c2
  show ?thesis
    by simp
qed

text \<open>
  Claim C7. For an event of type \<^verbatim>\<open>payment_intent.succeeded\<close> whose object is a
  payment intent, the handler answers 200, writes one log line and makes no call on the
  provider, whatever the provider is. A second delivery of the same event does the
  same again: the same answer, the same log line once more, and still no call.
\<close>

theorem webhook_succeeded_idempotent:
  assumes "received_event cfg constructEvent req = Some ev"
    and "event_type ev = ''payment_intent.succeeded''"
    and "object (data_object ev) = ''payment_intent''"
  shows "webhook cfg constructEvent api req s =
           (Responded 200 Status_text,
            console_log (Log_succeeded (obj_id (data_object ev))) s) \<and>
         webhook cfg constructEvent api' req (snd (webhook cfg constructEvent api req s)) =
           (Responded 200 Status_text,
            console_log (Log_succeeded (obj_id (data_object ev)))
              (console_log (Log_succeeded (obj_id (data_object ev))) s)) \<and>
         calls (snd (webhook cfg constructEvent api' req
                  (snd (webhook cfg constructEvent api req s)))) = calls s"
proof -
  let ?obj = "data_object ev"
  have src: "object ?obj \<noteq> ''source''"
    using assms(3) by simp
  have pi: "monitor_payment_intent (event_type ev) ?obj = Inr [Log_succeeded (obj_id ?obj)]"
    using assms(2,3) by (simp add: monitor_payment_intent_def)
  have "dispatch a ev t = (Responded 200 Status_text, console_log (Log_succeeded (obj_id ?obj)) t)"
    for a t
    using src pi
    by (simp add: dispatch_def Let_def monitor_chargeable_skip monitor_failed_skip
        console_log_def)
  with assms(1) show ?thesis
    by (simp add: webhook_def)
qed

theorem webhook_succeeded_idempotent_witness:
  "received_event signed_config (demo_constructEvent succeeded_event)
     (delivery (Some ''good'') succeeded_event) = Some succeeded_event \<and>
   event_type succeeded_event = ''payment_intent.succeeded'' \<and>
   object (data_object succeeded_event) = ''payment_intent'' \<and>
   webhook signed_config (demo_constructEvent succeeded_event) demo_stripe
     (delivery (Some ''good'') succeeded_event) fresh =
     (Responded 200 Status_text, \<lparr>logged = [Log_succeeded ''pi_1''], calls = []\<rparr>) \<and>
   webhook signed_config (demo_constructEvent succeeded_event) demo_stripe
     (delivery (Some ''good'') succeeded_event)
     (snd (webhook signed_config (demo_constructEvent succeeded_event) demo_stripe
        (delivery (Some ''good'') succeeded_event) fresh)) =
     (Responded 200 Status_text,
      \<lparr>logged = [Log_succeeded ''pi_1'', Log_succeeded ''pi_1''], calls = []\<rparr>)"
proof -
  have h1: "received_event signed_config (demo_constructEvent succeeded_event)
     (delivery (Some ''good'') succeeded_event) = Some succeeded_event"
    by (simp add: received_event_def demo_defs)
  have h2: "event_type succeeded_event = ''payment_intent.succeeded''"
    by (simp add: event_defs demo_defs)
  have h3: "object (data_object succeeded_event) = ''payment_intent''"
    by (simp add: event_defs demo_defs)
  have a: "obj_id (data_object succeeded_event) = ''pi_1''"
    by (simp add: event_defs demo_defs)
  note t = webhook_succeeded_idempotent [where api = demo_stripe and api' = demo_stripe
        and s = fresh, OF h1 h2 h3]
  have r1: "webhook signed_config (demo_constructEvent succeeded_event) demo_stripe
     (delivery (Some ''good'') succeeded_event) fresh =
     (Responded 200 Status_text, \<lparr>logged = [Log_succeeded ''pi_1''], calls = []\<rparr>)"
    using t [THEN conjunct1] by (simp add: a console_log_def fresh_def)
  have r2: "webhook signed_config (demo_constructEvent succeeded_event) demo_stripe
     (delivery (Some ''good'') succeeded_event)
     (snd (webhook signed_config (demo_constructEvent succeeded_event) demo_stripe
        (delivery (Some ''good'') succeeded_event) fresh)) =
     (Responded 200 Status_text,
      \<lparr>logged = [Log_succeeded ''pi_1'', Log_succeeded ''pi_1''], calls = []\<rparr>)"
    using t [THEN conjunct2, THEN conjunct1] by (simp add: a console_log_def fresh_def)
  from h1 h2 h3 r1 r2 show ?thesis
    by (intro conjI)
qed

text \<open>
  Claim C10. For an event of type \<^verbatim>\<open>payment_intent.payment_failed\<close> whose object is a
  payment intent without \<^verbatim>\<open>last_payment_error\<close>, the handler throws the
  \<^verbatim>\<open>TypeError\<close> of reading \<^verbatim>\<open>payment_method\<close> of nothing: it sends no 200, writes
  no log line and makes no call.
\<close>

theorem webhook_payment_failed_throws:
  assumes "received_event cfg constructEvent req = Some ev"
    and "event_type ev = ''payment_intent.payment_failed''"
    and "object (data_object ev) = ''payment_intent''"
    and "last_payment_error (data_object ev) = None"
  shows "webhook cfg constructEvent api req s = (Threw (TypeError ''payment_method''), s) \<and>
         fst (webhook cfg constructEvent api req s) \<noteq> Responded 200 Status_text"
  using assms by (simp add: webhook_def dispatch_def monitor_payment_intent_def)

theorem webhook_payment_failed_throws_witness:
  "received_event unsigned_config (demo_constructEvent payment_failed_event)
     (delivery None payment_failed_event) = Some payment_failed_event \<and>
   event_type payment_failed_event = ''payment_intent.payment_failed'' \<and>
   object (data_object payment_failed_event) = ''payment_intent'' \<and>
   last_payment_error (data_object payment_failed_event) = None \<and>
   webhook unsigned_config (demo_constructEvent payment_failed_event) demo_stripe
     (delivery None payment_failed_event) fresh =
     (Threw (TypeError ''payment_method''), fresh)"
proof -
  have h1: "received_event unsigned_config (demo_constructEvent payment_failed_event)
     (delivery None payment_failed_event) = Some payment_failed_event"
    by (simp add: received_event_def demo_defs)
  have h2: "event_type payment_failed_event = ''payment_intent.payment_failed''"
    by (simp add: event_defs demo_defs)
  have h3: "object (data_object payment_failed_event) = ''payment_intent''"
    by (simp add: event_defs demo_defs)
  have h4: "last_payment_error (data_object payment_failed_event) = None"
    by (simp add: event_defs demo_defs)
  from webhook_payment_failed_throws [where api = demo_stripe and s = fresh, OF h1 h2 h3 h4]
  show ?thesis
    using h1 h2 h3 h4 by simp
qed

section \<open>Failures of the provider\<close>

text \<open>
  The routes that create and update a PaymentIntent catch the rejection of their call
  and answer 500 with its message.
\<close>

lemma post_payment_intents_rejected:
  assumes "\<And>c. api (calls s) c = Inl m"
    and "js_multiply rt (body_price b) (body_quantity b) = Inr line"
  shows "fst (post_payment_intents cfg rt api b s) = Responded 500 (Json_error m)"
  using assms by (simp add: post_payment_intents_def Let_def)

lemma post_update_quantity_rejected:
  assumes "\<And>c. api (calls s) c = Inl m"
    and "js_multiply rt (body_price b) (body_quantity b) = Inr line"
  shows "fst (post_update_quantity rt api i b s) = Responded 500 (Json_error m)"
  using assms by (simp add: post_update_quantity_def Let_def)

lemma post_update_currency_rejected:
  assumes "\<And>c. api (calls s) c = Inl m"
  shows "fst (post_update_currency api i b s) = Responded 500 (Json_error m)"
  using assms by (simp add: post_update_currency_def Let_def)

text \<open>
  Claim C6. A failing provider call is answered with 500 and the provider's message by
  the routes above only. Where the call is not inside a \<^verbatim>\<open>try\<close>, the rejection
  leaves the handler as an exception and the handler sends nothing: the checkout
  session, the status route, and the retrieve and the cancel of the webhook, evaluated
  on a provider that rejects every call; the last line is the route that creates a
  PaymentIntent on the same provider.
\<close>

theorem provider_failure_thrown:
  "fst (post_create_checkout_session demo_runtime
          (failing_stripe ''Invalid API Key provided'')
          demo_body fresh) = Threw (StripeError ''Invalid API Key provided'') \<and>
   fst (get_status (failing_stripe ''Invalid API Key provided'') ''pi_1'' fresh) =
     Threw (StripeError ''Invalid API Key provided'') \<and>
   fst (webhook unsigned_config (demo_constructEvent chargeable_event)
          (failing_stripe ''Invalid API Key provided'') (delivery None chargeable_event)
          fresh) = Threw (StripeError ''Invalid API Key provided'') \<and>
   fst (webhook unsigned_config (demo_constructEvent failed_event)
          (failing_stripe ''Invalid API Key provided'') (delivery None failed_event)
          fresh) = Threw (StripeError ''Invalid API Key provided'') \<and>
   fst (post_payment_intents unsigned_config demo_runtime
          (failing_stripe ''Invalid API Key provided'')
          demo_body fresh) = Responded 500 (Json_error ''Invalid API Key provided'')"
  by (simp add: post_create_checkout_session_def get_status_def post_payment_intents_def
      js_multiply_def to_number_def webhook_defs demo_defs event_defs)

end
